theory Spec2Isabelle
  imports Complex_Main
begin

section \<open>Python values, dictionaries and exceptions\<close>

text \<open>
  The repository is a Python service. Its data are JSON-like Python objects, modelled by
  \<open>pyval\<close>. A Python \<open>str\<close> is a \<open>string\<close> whose characters are the code points
  U+0000..U+00FF (one \<open>char\<close> per code point); code points above U+00FF are outside this
  model. A \<open>float\<close> is modelled by the rational number it denotes (rounding to a
  double, overflow and underflow are not modelled; the claims only compare against the
  literals 0.0, 0.7 and 0.8 of the source), or is one of nan, inf and -inf. A \<open>dict\<close>
  with string keys is an association list in insertion order.
\<close>

datatype nonfinite = NaN | PosInf | NegInf

datatype pyval =
    PNone
  | PBool bool
  | PInt int
  | PFloat rat
  | PNonFinite nonfinite
  | PStr string
  | PList "pyval list"
  | PDict "(string \<times> pyval) list"

type_synonym pydict = "(string \<times> pyval) list"

text \<open>
  An exception is its class name and the text \<open>str(e)\<close>. Every exception of the model is
  an instance of Python's \<open>Exception\<close> (asynchronous signals such as KeyboardInterrupt,
  which derive from BaseException only, are outside the model).
\<close>

datatype exn = Exn (exn_class: string) (exn_msg: string)

text \<open>\<open>try: body except Exception as e: handler(e)\<close>\<close>

definition try_except :: "exn + 'a \<Rightarrow> (exn \<Rightarrow> exn + 'a) \<Rightarrow> exn + 'a" where
  "try_except body handler = (case body of Inl e \<Rightarrow> handler e | Inr v \<Rightarrow> Inr v)"

text \<open>\<open>d.get(k)\<close>, \<open>d.get(k, default)\<close> and \<open>k in d\<close> on a dict.\<close>

definition py_get :: "pydict \<Rightarrow> string \<Rightarrow> pyval" where
  "py_get d k = (case map_of d k of Some v \<Rightarrow> v | None \<Rightarrow> PNone)"

definition get_default :: "pydict \<Rightarrow> string \<Rightarrow> pyval \<Rightarrow> pyval" where
  "get_default d k dflt = (case map_of d k of Some v \<Rightarrow> v | None \<Rightarrow> dflt)"

definition has_key :: "pydict \<Rightarrow> string \<Rightarrow> bool" where
  "has_key d k = (map_of d k \<noteq> None)"

definition keys :: "pydict \<Rightarrow> string list" where
  "keys d = map fst d"

text \<open>Truth value of an object (\<open>bool(x)\<close>, \<open>if x\<close>, \<open>not x\<close>).\<close>

fun truthy :: "pyval \<Rightarrow> bool" where
  "truthy PNone = False"
| "truthy (PBool b) = b"
| "truthy (PInt i) = (i \<noteq> 0)"
| "truthy (PFloat r) = (r \<noteq> 0)"
| "truthy (PNonFinite x) = True"
| "truthy (PStr s) = (s \<noteq> [])"
| "truthy (PList xs) = (xs \<noteq> [])"
| "truthy (PDict kvs) = (kvs \<noteq> [])"

fun type_name :: "pyval \<Rightarrow> string" where
  "type_name PNone = ''NoneType''"
| "type_name (PBool b) = ''bool''"
| "type_name (PInt i) = ''int''"
| "type_name (PFloat r) = ''float''"
| "type_name (PNonFinite x) = ''float''"
| "type_name (PStr s) = ''str''"
| "type_name (PList xs) = ''list''"
| "type_name (PDict kvs) = ''dict''"

text \<open>
  \<open>str.strip()\<close> removes leading and trailing whitespace. Among the code points up to
  U+00FF, \<open>str.isspace\<close> holds for U+0009..U+000D, U+001C..U+0020, U+0085 and U+00A0.
\<close>

definition isspace :: "char \<Rightarrow> bool" where
  "isspace c = (c \<in> set [CHR 0x09, CHR 0x0A, CHR 0x0B, CHR 0x0C, CHR 0x0D,
                          CHR 0x1C, CHR 0x1D, CHR 0x1E, CHR 0x1F, CHR 0x20,
                          CHR 0x85, CHR 0xA0])"

definition strip :: "string \<Rightarrow> string" where
  "strip s = rev (dropWhile isspace (rev (dropWhile isspace s)))"

text \<open>
  The guard \<open>not x or not isinstance(x, str) or not x.strip()\<close> that validates a question,
  a namespace, a query or a form field.
\<close>

definition invalid_text :: "pyval \<Rightarrow> bool" where
  "invalid_text x =
     (\<not> truthy x \<or> (case x of PStr s \<Rightarrow> strip s = [] | _ \<Rightarrow> True))"

section \<open>Built-in conversions: \<open>str\<close>, \<open>repr\<close>, \<open>int\<close>, \<open>float\<close>, \<open>len\<close>\<close>

definition digit_char :: "nat \<Rightarrow> char" where
  "digit_char d =
     (if d = 0 then CHR ''0'' else if d = 1 then CHR ''1'' else if d = 2 then CHR ''2''
      else if d = 3 then CHR ''3'' else if d = 4 then CHR ''4'' else if d = 5 then CHR ''5''
      else if d = 6 then CHR ''6'' else if d = 7 then CHR ''7'' else if d = 8 then CHR ''8''
      else CHR ''9'')"

fun show_nat :: "nat \<Rightarrow> string" where
  "show_nat n = (if n < 10 then [digit_char n] else show_nat (n div 10) @ [digit_char (n mod 10)])"

declare show_nat.simps [simp del]

definition show_int :: "int \<Rightarrow> string" where
  "show_int i = (if i < 0 then CHR ''-'' # show_nat (nat (- i)) else show_nat (nat i))"

fun join :: "string \<Rightarrow> string list \<Rightarrow> string" where
  "join sep [] = []"
| "join sep [x] = x"
| "join sep (x # y # ys) = x @ sep @ join sep (y # ys)"

text \<open>
  \<open>repr\<close> of a \<open>str\<close>: single quotes, unless the text holds a single quote and no
  double quote; the backslash, the chosen quote, tab, newline and carriage return are
  escaped, and every other non-printable code point is written \<open>\xNN\<close>. Up to U+00FF the
  non-printable code points are U+0000..U+001F, U+007F..U+00A0 and U+00AD.
\<close>

definition hex_digit :: "nat \<Rightarrow> char" where
  "hex_digit d =
     (if d < 10 then digit_char d
      else if d = 10 then CHR ''a'' else if d = 11 then CHR ''b'' else if d = 12 then CHR ''c''
      else if d = 13 then CHR ''d'' else if d = 14 then CHR ''e'' else CHR ''f'')"

definition printable :: "char \<Rightarrow> bool" where
  "printable c = (let n = (of_char c :: nat)
                  in 32 \<le> n \<and> \<not> (127 \<le> n \<and> n \<le> 160) \<and> n \<noteq> 173)"

definition repr_char :: "char \<Rightarrow> char \<Rightarrow> string" where
  "repr_char quote c =
     (if c = CHR 0x5C then [CHR 0x5C, CHR 0x5C]
      else if c = quote then [CHR 0x5C, quote]
      else if c = CHR 0x09 then [CHR 0x5C, CHR ''t'']
      else if c = CHR 0x0A then [CHR 0x5C, CHR ''n'']
      else if c = CHR 0x0D then [CHR 0x5C, CHR ''r'']
      else if printable c then [c]
      else [CHR 0x5C, CHR ''x'', hex_digit (of_char c div 16), hex_digit (of_char c mod 16)])"

definition repr_str :: "string \<Rightarrow> string" where
  "repr_str s =
     (let quote = (if CHR 0x27 \<in> set s \<and> CHR 0x22 \<notin> set s then CHR 0x22 else CHR 0x27)
      in quote # concat (map (repr_char quote) s) @ [quote])"

text \<open>
  \<open>repr\<close> of a \<open>float\<close>, approximated by the decimal expansion of the rational (at most
  17 fractional digits; a whole number prints as \<open>n.0\<close>). CPython prints the shortest
  digit string that reads back as the same double, and uses exponent notation from 1e16
  on and below 1e-4; on floats written with few digits in that range the two agree.
\<close>

fun frac_digits :: "nat \<Rightarrow> nat \<Rightarrow> nat \<Rightarrow> string" where
  "frac_digits 0 num den = []"
| "frac_digits (Suc fuel) num den =
     (if num = 0 \<or> den = 0 then []
      else digit_char ((10 * num) div den) # frac_digits fuel ((10 * num) mod den) den)"

definition float_repr :: "rat \<Rightarrow> string" where
  "float_repr r =
     (let (p, q) = quotient_of r;
          whole = nat \<bar>p\<bar> div nat q;
          part = nat \<bar>p\<bar> mod nat q
      in (if p < 0 then ''-'' else []) @ show_nat whole @ ''.''
         @ (if part = 0 then ''0'' else frac_digits 17 part (nat q)))"

fun repr_nonfinite :: "nonfinite \<Rightarrow> string" where
  "repr_nonfinite NaN = ''nan''"
| "repr_nonfinite PosInf = ''inf''"
| "repr_nonfinite NegInf = ''-inf''"

text \<open>
  \<open>repr(x)\<close>, and \<open>str(x)\<close> as used by f-strings: the text itself for a \<open>str\<close>, and
  \<open>repr\<close> for everything else. (CPython's limit of 4300 digits on converting an \<open>int\<close>
  to text is not modelled.)
\<close>

fun py_repr :: "pyval \<Rightarrow> string" where
  "py_repr PNone = ''None''"
| "py_repr (PBool b) = (if b then ''True'' else ''False'')"
| "py_repr (PInt i) = show_int i"
| "py_repr (PFloat r) = float_repr r"
| "py_repr (PNonFinite x) = repr_nonfinite x"
| "py_repr (PStr s) = repr_str s"
| "py_repr (PList xs) = ''['' @ join '', '' (map py_repr xs) @ '']''"
| "py_repr (PDict kvs) =
     ''{'' @ join '', '' (map (\<lambda>(k, v). repr_str k @ '': '' @ py_repr v) kvs) @ ''}''"

definition py_str :: "pyval \<Rightarrow> string" where
  "py_str x = (case x of PStr s \<Rightarrow> s | _ \<Rightarrow> py_repr x)"

text \<open>
  \<open>int(x)\<close>. On text: surrounding whitespace is dropped, a sign may lead, and single
  underscores may separate the digits. A well-formed run of more than 4300 digits is
  refused before what follows the run is looked at.
\<close>

definition is_digit :: "char \<Rightarrow> bool" where
  "is_digit c = (48 \<le> (of_char c :: nat) \<and> (of_char c :: nat) \<le> 57)"

definition digit_val :: "char \<Rightarrow> nat" where
  "digit_val c = of_char c - 48"

definition digits_val :: "string \<Rightarrow> nat" where
  "digits_val ds = foldl (\<lambda>acc c. 10 * acc + digit_val c) 0 ds"

fun int_digits :: "bool \<Rightarrow> string \<Rightarrow> string option" where
  "int_digits after_digit [] = (if after_digit then Some [] else None)"
| "int_digits after_digit (c # cs) =
     (if is_digit c then map_option ((#) c) (int_digits True cs)
      else if c = CHR ''_'' \<and> after_digit then int_digits False cs
      else None)"

definition int_of_text :: "string \<Rightarrow> int option" where
  "int_of_text s =
     (case strip s of
        [] \<Rightarrow> None
      | c # cs \<Rightarrow>
          if c = CHR ''-'' then map_option (\<lambda>ds. - int (digits_val ds)) (int_digits False cs)
          else if c = CHR ''+'' then map_option (\<lambda>ds. int (digits_val ds)) (int_digits False cs)
          else map_option (\<lambda>ds. int (digits_val ds)) (int_digits False (c # cs)))"

definition too_many_digits :: "nat \<Rightarrow> string" where
  "too_many_digits k =
     ''Exceeds the limit (4300 digits) for integer string conversion: value has ''
     @ show_nat k @ '' digits; use sys.set_int_max_str_digits() to increase the limit''"

definition digit_count :: "string \<Rightarrow> nat" where
  "digit_count s =
     (let body = strip s;
          unsigned = (if body \<noteq> [] \<and> (hd body = CHR ''-'' \<or> hd body = CHR ''+'')
                      then tl body else body)
      in case int_digits False (takeWhile (\<lambda>c. is_digit c \<or> c = CHR ''_'') unsigned) of
           Some ds \<Rightarrow> length ds
         | None \<Rightarrow> 0)"

definition trunc_rat :: "rat \<Rightarrow> int" where
  "trunc_rat r = (if r < 0 then - \<lfloor>- r\<rfloor> else \<lfloor>r\<rfloor>)"

fun py_int :: "pyval \<Rightarrow> exn + int" where
  "py_int (PInt i) = Inr i"
| "py_int (PBool b) = Inr (if b then 1 else 0)"
| "py_int (PFloat r) = Inr (trunc_rat r)"
| "py_int (PNonFinite NaN) = Inl (Exn ''ValueError'' ''cannot convert float NaN to integer'')"
| "py_int (PNonFinite x) =
     Inl (Exn ''OverflowError'' ''cannot convert float infinity to integer'')"
| "py_int (PStr s) =
     (if 4300 < digit_count s then Inl (Exn ''ValueError'' (too_many_digits (digit_count s)))
      else case int_of_text s of
             Some i \<Rightarrow> Inr i
           | None \<Rightarrow> Inl (Exn ''ValueError''
                        (''invalid literal for int() with base 10: '' @ repr_str s)))"
| "py_int x =
     Inl (Exn ''TypeError''
       (''int() argument must be a string, a bytes-like object or a real number, not ''
        @ [CHR 0x27] @ type_name x @ [CHR 0x27]))"

text \<open>
  \<open>float(x)\<close> on an \<open>int\<close> or \<open>float\<close> (a \<open>bool\<close> is an \<open>int\<close>). An \<open>int\<close> that
  rounds to 2^1024 or more raises OverflowError.
\<close>

definition isinstance_int_float :: "pyval \<Rightarrow> bool" where
  "isinstance_int_float x =
     (case x of PBool b \<Rightarrow> True | PInt i \<Rightarrow> True | PFloat r \<Rightarrow> True
              | PNonFinite y \<Rightarrow> True | _ \<Rightarrow> False)"

definition py_float :: "pyval \<Rightarrow> exn + pyval" where
  "py_float x =
     (case x of
        PBool b \<Rightarrow> Inr (PFloat (if b then 1 else 0))
      | PInt i \<Rightarrow>
          if \<bar>i\<bar> < 2 ^ 1024 - 2 ^ 970 then Inr (PFloat (of_int i))
          else Inl (Exn ''OverflowError'' ''int too large to convert to float'')
      | PFloat r \<Rightarrow> Inr (PFloat r)
      | PNonFinite y \<Rightarrow> Inr (PNonFinite y)
      | _ \<Rightarrow> Inl (Exn ''TypeError''
                 (''float() argument must be a string or a real number, not ''
                  @ [CHR 0x27] @ type_name x @ [CHR 0x27])))"

definition py_len :: "pyval \<Rightarrow> exn + nat" where
  "py_len x =
     (case x of
        PStr s \<Rightarrow> Inr (length s)
      | PList xs \<Rightarrow> Inr (length xs)
      | PDict kvs \<Rightarrow> Inr (length kvs)
      | _ \<Rightarrow> Inl (Exn ''TypeError''
                 (''object of type '' @ [CHR 0x27] @ type_name x @ [CHR 0x27]
                  @ '' has no len()'')))"

text \<open>
  \<open>s.find(c)\<close>, \<open>s.rfind(c)\<close> for a one-character needle (the index, or -1) and the
  slice \<open>s[a:b]\<close>.
\<close>

fun find_from :: "char \<Rightarrow> string \<Rightarrow> int \<Rightarrow> int" where
  "find_from c [] i = - 1"
| "find_from c (x # xs) i = (if x = c then i else find_from c xs (i + 1))"

definition find_str :: "string \<Rightarrow> char \<Rightarrow> int" where
  "find_str s c = find_from c s 0"

definition rfind_str :: "string \<Rightarrow> char \<Rightarrow> int" where
  "rfind_str s c =
     (let k = find_from c (rev s) 0 in if k = - 1 then - 1 else int (length s) - 1 - k)"

definition slice_index :: "nat \<Rightarrow> int \<Rightarrow> nat" where
  "slice_index n i = (if i < 0 then nat (max 0 (int n + i)) else min n (nat i))"

definition py_slice :: "'a list \<Rightarrow> int \<Rightarrow> int \<Rightarrow> 'a list" where
  "py_slice xs a b =
     (let i = slice_index (length xs) a; j = slice_index (length xs) b
      in take (j - i) (drop i xs))"

section \<open>\<open>json.loads\<close>\<close>

text \<open>
  The decoder of the standard library, as \<open>json.loads\<close> runs it on a \<open>str\<close> with the
  default settings (CPython 3.11: json/decoder.py and json/scanner.py). A scanner works on
  the rest of the document; \<open>n\<close> is the document's length, so the index of the next
  character is \<open>n - length rest\<close>. An error is \<open>JSONDecodeError(msg, doc, pos)\<close>.

  Two more exceptions leave the decoder. The scanner enters an object or an array
  through the interpreter's recursion check, so a document nested deeper than the
  interpreter allows at that point of the run raises RecursionError; \<open>depth\<close> is the
  number of nested objects and arrays that can still be entered. And an integer literal
  of more than 4300 digits raises ValueError (the default limit of \<open>int\<close> on the
  conversion of a \<open>str\<close>).

  Not modelled: the byte-order-mark check (U+FEFF is outside the character model); a
  \<open>\uXXXX\<close> escape above U+00FF, which is rendered as \<open>?\<close>; and the sign of \<open>-0.0\<close>.

  The scanners are defined by recursion on a budget of calls (\<open>Fuel\<close> when it is used
  up), which \<open>json_loads\<close> sets to twice the document's length plus two; that budget is
  never used up (lemma \<open>scan_fuel\<close> below).
\<close>

datatype jerr = JErr string nat | Recursion string | Digits nat | Fuel

definition json_ws :: "char \<Rightarrow> bool" where
  "json_ws c = (c \<in> set [CHR 0x20, CHR 0x09, CHR 0x0A, CHR 0x0D])"

definition skip_ws :: "string \<Rightarrow> string" where
  "skip_ws cs = dropWhile json_ws cs"

definition hex_val :: "char \<Rightarrow> nat option" where
  "hex_val c =
     (if is_digit c then Some (digit_val c)
      else if c \<in> set ''abcdef'' then Some (of_char c - 87)
      else if c \<in> set ''ABCDEF'' then Some (of_char c - 55)
      else None)"

definition decode_uXXXX :: "string \<Rightarrow> nat option" where
  "decode_uXXXX cs =
     (case map hex_val (take 4 cs) of
        [Some a, Some b, Some c, Some d] \<Rightarrow> Some (((a * 16 + b) * 16 + c) * 16 + d)
      | _ \<Rightarrow> None)"

definition chr_model :: "nat \<Rightarrow> char" where
  "chr_model u = (if u < 256 then char_of u else CHR ''?'')"

definition backslash :: "char \<Rightarrow> char option" where
  "backslash c =
     (if c = CHR 0x22 then Some (CHR 0x22)
      else if c = CHR 0x5C then Some (CHR 0x5C)
      else if c = CHR ''/'' then Some (CHR ''/'')
      else if c = CHR ''b'' then Some (CHR 0x08)
      else if c = CHR ''f'' then Some (CHR 0x0C)
      else if c = CHR ''n'' then Some (CHR 0x0A)
      else if c = CHR ''r'' then Some (CHR 0x0D)
      else if c = CHR ''t'' then Some (CHR 0x09)
      else None)"

text \<open>
  \<open>scanstring\<close>, entered after the opening quote, which stands at index \<open>begin\<close>;
  \<open>acc\<close> holds the decoded characters in reverse.
\<close>

fun scanstring :: "nat \<Rightarrow> nat \<Rightarrow> string \<Rightarrow> string \<Rightarrow> jerr + (string \<times> string)" where
  "scanstring n begin acc [] = Inl (JErr ''Unterminated string starting at'' begin)"
| "scanstring n begin acc (c # cs) =
     (if c = CHR 0x22 then Inr (rev acc, cs)
      else if c = CHR 0x5C then
        (case cs of
           [] \<Rightarrow> Inl (JErr ''Unterminated string starting at'' begin)
         | esc # cs1 \<Rightarrow>
             if esc \<noteq> CHR ''u'' then
               (case backslash esc of
                  None \<Rightarrow> Inl (JErr (''Invalid '' @ [CHR 0x5C] @ ''escape'') (n - length cs - 1))
                | Some ch \<Rightarrow> scanstring n begin (ch # acc) cs1)
             else
               (case decode_uXXXX cs1 of
                  None \<Rightarrow> Inl (JErr (''Invalid '' @ [CHR 0x5C] @ ''uXXXX escape'') (n - length cs))
                | Some uni \<Rightarrow>
                    let cs2 = drop 4 cs1 in
                    if 0xD800 \<le> uni \<and> uni \<le> 0xDBFF \<and> take 2 cs2 = [CHR 0x5C, CHR ''u''] then
                      (case decode_uXXXX (drop 2 cs2) of
                         None \<Rightarrow> Inl (JErr (''Invalid '' @ [CHR 0x5C] @ ''uXXXX escape'')
                                     (n - length cs2 + 1))
                       | Some uni2 \<Rightarrow>
                           if 0xDC00 \<le> uni2 \<and> uni2 \<le> 0xDFFF
                           then scanstring n begin
                                  (chr_model (0x10000 + (uni - 0xD800) * 1024 + (uni2 - 0xDC00))
                                   # acc) (drop 6 cs2)
                           else scanstring n begin (chr_model uni # acc) cs2)
                    else scanstring n begin (chr_model uni # acc) cs2))
      else if (of_char c :: nat) < 32 then
        Inl (JErr ''Invalid control character at'' (n - length cs - 1))
      else scanstring n begin (c # acc) cs)"

text \<open>
  \<open>NUMBER_RE\<close>: \<open>(-?(?:0|[1-9]\d*))(\.\d+)?([eE][-+]?\d+)?\<close>. With a fraction or an
  exponent the value is a float, otherwise an int, which \<open>int\<close> refuses when it has
  more than 4300 digits.
\<close>

definition pow10 :: "int \<Rightarrow> rat" where
  "pow10 e = (if e < 0 then 1 / 10 ^ nat (- e) else 10 ^ nat e)"

definition int_part :: "string \<Rightarrow> (string \<times> string) option" where
  "int_part cs =
     (if cs = [] \<or> \<not> is_digit (hd cs) then None
      else if hd cs = CHR ''0'' then Some (''0'', tl cs)
      else Some (takeWhile is_digit cs, dropWhile is_digit cs))"

definition opt_frac :: "string \<Rightarrow> string \<times> string" where
  "opt_frac r =
     (if r \<noteq> [] \<and> hd r = CHR ''.'' \<and> takeWhile is_digit (tl r) \<noteq> []
      then (takeWhile is_digit (tl r), dropWhile is_digit (tl r))
      else ([], r))"

definition opt_exp :: "string \<Rightarrow> (bool \<times> string) \<times> string" where
  "opt_exp r =
     (if r \<noteq> [] \<and> (hd r = CHR ''e'' \<or> hd r = CHR ''E'') then
        let r1 = tl r;
            signed = (r1 \<noteq> [] \<and> (hd r1 = CHR ''-'' \<or> hd r1 = CHR ''+''));
            r2 = (if signed then tl r1 else r1)
        in if takeWhile is_digit r2 \<noteq> []
           then ((r1 \<noteq> [] \<and> hd r1 = CHR ''-'', takeWhile is_digit r2), dropWhile is_digit r2)
           else ((False, []), r)
      else ((False, []), r))"

definition match_number :: "string \<Rightarrow> (jerr + pyval \<times> string) option" where
  "match_number cs =
     (let neg = (cs \<noteq> [] \<and> hd cs = CHR ''-'');
          sgn = (if neg then - 1 else 1)
      in case int_part (if neg then tl cs else cs) of
           None \<Rightarrow> None
         | Some (ip, r1) \<Rightarrow>
             (case opt_frac r1 of
                (fd, r2) \<Rightarrow>
                  (case opt_exp r2 of
                     ((eneg, ed), r3) \<Rightarrow>
                       if fd = [] \<and> ed = [] then
                         (if 4300 < length ip then Some (Inl (Digits (length ip)))
                          else Some (Inr (PInt (sgn * int (digits_val ip)), r3)))
                       else Some (Inr (PFloat (of_int sgn
                              * (of_nat (digits_val ip) + of_nat (digits_val fd) / 10 ^ length fd)
                              * pow10 ((if eneg then - 1 else 1) * int (digits_val ed))), r3)))))"

text \<open>\<open>dict(pairs)\<close>: a repeated key keeps its first place and takes the last value.\<close>

fun dict_set :: "pydict \<Rightarrow> string \<Rightarrow> pyval \<Rightarrow> pydict" where
  "dict_set [] k v = [(k, v)]"
| "dict_set ((k', v') # d) k v =
     (if k' = k then (k, v) # d else (k', v') # dict_set d k v)"

text \<open>
  \<open>scan_once\<close>, and the loops of \<open>JSONObject\<close> (entered after the opening quote of a
  key) and \<open>JSONArray\<close> (entered at an element). The recursion check comes first on an
  opening brace or bracket, also of an empty object or array.
\<close>

fun scan_once :: "nat \<Rightarrow> nat \<Rightarrow> nat \<Rightarrow> string \<Rightarrow> jerr + (pyval \<times> string)"
  and parse_pairs ::
    "nat \<Rightarrow> nat \<Rightarrow> nat \<Rightarrow> pydict \<Rightarrow> string \<Rightarrow> jerr + (pyval \<times> string)"
  and parse_items ::
    "nat \<Rightarrow> nat \<Rightarrow> nat \<Rightarrow> pyval list \<Rightarrow> string \<Rightarrow> jerr + (pyval \<times> string)"
where
  "scan_once 0 depth n cs = Inl Fuel"
| "scan_once (Suc fuel) depth n [] = Inl (JErr ''Expecting value'' n)"
| "scan_once (Suc fuel) depth n (c # cs) =
     (if c = CHR 0x22 then
        (case scanstring n (n - length cs - 1) [] cs of
           Inl e \<Rightarrow> Inl e
         | Inr (s, rest) \<Rightarrow> Inr (PStr s, rest))
      else if c = CHR ''{'' then
        (if depth = 0 then Inl (Recursion ''object'')
         else
           let cs1 = skip_ws cs
           in if cs1 \<noteq> [] \<and> hd cs1 = CHR ''}'' then Inr (PDict [], tl cs1)
              else if cs1 \<noteq> [] \<and> hd cs1 = CHR 0x22
              then parse_pairs fuel (depth - 1) n [] (tl cs1)
              else Inl (JErr ''Expecting property name enclosed in double quotes''
                          (n - length cs1)))
      else if c = CHR ''['' then
        (if depth = 0 then Inl (Recursion ''array'')
         else
           let cs1 = skip_ws cs
           in if cs1 \<noteq> [] \<and> hd cs1 = CHR '']'' then Inr (PList [], tl cs1)
              else parse_items fuel (depth - 1) n [] cs1)
      else if take 4 (c # cs) = ''null'' then Inr (PNone, drop 3 cs)
      else if take 4 (c # cs) = ''true'' then Inr (PBool True, drop 3 cs)
      else if take 5 (c # cs) = ''false'' then Inr (PBool False, drop 4 cs)
      else
        (case match_number (c # cs) of
           Some found \<Rightarrow> found
         | None \<Rightarrow>
             if take 3 (c # cs) = ''NaN'' then Inr (PNonFinite NaN, drop 2 cs)
             else if take 8 (c # cs) = ''Infinity'' then Inr (PNonFinite PosInf, drop 7 cs)
             else if take 9 (c # cs) = ''-Infinity'' then Inr (PNonFinite NegInf, drop 8 cs)
             else Inl (JErr ''Expecting value'' (n - length cs - 1))))"
| "parse_pairs 0 depth n pairs cs = Inl Fuel"
| "parse_pairs (Suc fuel) depth n pairs cs =
     (case scanstring n (n - length cs - 1) [] cs of
        Inl e \<Rightarrow> Inl e
      | Inr (key, r1) \<Rightarrow>
          let r2 = skip_ws r1
          in if r2 = [] \<or> hd r2 \<noteq> CHR '':'' then
               Inl (JErr (''Expecting '' @ [CHR 0x27] @ '':'' @ [CHR 0x27] @ '' delimiter'')
                      (n - length r2))
             else
               (case scan_once fuel depth n (skip_ws (tl r2)) of
                  Inl e \<Rightarrow> Inl e
                | Inr (v, r3) \<Rightarrow>
                    let pairs' = dict_set pairs key v; r4 = skip_ws r3
                    in if r4 \<noteq> [] \<and> hd r4 = CHR ''}'' then Inr (PDict pairs', tl r4)
                       else if r4 = [] \<or> hd r4 \<noteq> CHR '','' then
                         Inl (JErr (''Expecting '' @ [CHR 0x27] @ '','' @ [CHR 0x27]
                                    @ '' delimiter'') (n - length r4))
                       else
                         let r5 = skip_ws (tl r4)
                         in if r5 \<noteq> [] \<and> hd r5 = CHR 0x22
                            then parse_pairs fuel depth n pairs' (tl r5)
                            else Inl (JErr ''Expecting property name enclosed in double quotes''
                                        (n - length r5))))"
| "parse_items 0 depth n items cs = Inl Fuel"
| "parse_items (Suc fuel) depth n items cs =
     (case scan_once fuel depth n cs of
        Inl e \<Rightarrow> Inl e
      | Inr (v, r1) \<Rightarrow>
          let r2 = skip_ws r1
          in if r2 \<noteq> [] \<and> hd r2 = CHR '']'' then Inr (PList (items @ [v]), tl r2)
             else if r2 = [] \<or> hd r2 \<noteq> CHR '','' then
               Inl (JErr (''Expecting '' @ [CHR 0x27] @ '','' @ [CHR 0x27] @ '' delimiter'')
                      (n - length r2))
             else parse_items fuel depth n (items @ [v]) (skip_ws (tl r2)))"

text \<open>
  \<open>str(JSONDecodeError)\<close>: the message, the line and column of \<open>pos\<close> (both counted
  from 1) and \<open>pos\<close> itself.
\<close>

definition errmsg :: "string \<Rightarrow> string \<Rightarrow> nat \<Rightarrow> string" where
  "errmsg msg doc pos =
     (let upto = take pos doc;
          lineno = length (filter (\<lambda>c. c = CHR 0x0A) upto) + 1;
          colno = length (takeWhile (\<lambda>c. c \<noteq> CHR 0x0A) (rev upto)) + 1
      in msg @ '': line '' @ show_nat lineno @ '' column '' @ show_nat colno
         @ '' (char '' @ show_nat pos @ '')'')"

text \<open>The message of RecursionError.\<close>

definition too_deep :: "string \<Rightarrow> string" where
  "too_deep kind =
     ''maximum recursion depth exceeded while decoding a JSON '' @ kind
     @ '' from a unicode string''"

text \<open>
  \<open>json.loads(s)\<close>: leading whitespace, one value, trailing whitespace and nothing
  else. The case \<open>Fuel\<close> is there for completeness only (lemma \<open>scan_fuel\<close>).
\<close>

definition json_loads :: "nat \<Rightarrow> string \<Rightarrow> exn + pyval" where
  "json_loads depth s =
     (let n = length s
      in case scan_once (2 * n + 2) depth n (skip_ws s) of
           Inl (JErr msg pos) \<Rightarrow> Inl (Exn ''JSONDecodeError'' (errmsg msg s pos))
         | Inl (Recursion kind) \<Rightarrow> Inl (Exn ''RecursionError'' (too_deep kind))
         | Inl (Digits k) \<Rightarrow> Inl (Exn ''ValueError'' (too_many_digits k))
         | Inl Fuel \<Rightarrow> Inl (Exn ''RecursionError'' ''maximum recursion depth exceeded'')
         | Inr (obj, rest) \<Rightarrow>
             let rest' = skip_ws rest
             in if rest' \<noteq> [] then
                  Inl (Exn ''JSONDecodeError'' (errmsg ''Extra data'' s (n - length rest')))
                else Inr obj)"

section \<open>\<open>AgentProcessor.answer_question\<close> (agent_processor.py)\<close>

subsection \<open>The two patterns handed to \<open>re.search\<close>\<close>

text \<open>
  The source writes the patterns as raw strings with doubled backslashes:
  \<^verbatim>\<open>r'\\[SYSTEM_INFO\\] FOUND_PAGES: (\\[.*?\\])'\<close> and
  \<^verbatim>\<open>r'FOUND_PAGES: (\\[.*?\\])'\<close>.
  In a raw string a backslash stands for itself, so the regular expression that
  \<open>re\<close> compiles begins with \<^verbatim>\<open>\\\<close>, an escaped backslash that matches one backslash,
  followed by the character set \<^verbatim>\<open>[SYSTEM_INFO\\]\<close> (one of the letters S, Y, T, E, M, I,
  N, F, O, the underscore, or a backslash), then the text \<open> FOUND_PAGES: \<close>, and the
  group is one backslash followed by the character set \<^verbatim>\<open>[.*?\\]\<close> (a dot, a star, a question
  mark or a backslash). Both patterns therefore match texts of a fixed length, and
  \<open>group(1)\<close> is always two characters long and starts with a backslash.
\<close>

datatype re_item = Lit char | Class "char list"

fun re_match :: "re_item list \<Rightarrow> string \<Rightarrow> bool" where
  "re_match [] cs = True"
| "re_match (i # items) [] = False"
| "re_match (Lit c # items) (x # cs) = (x = c \<and> re_match items cs)"
| "re_match (Class ds # items) (x # cs) = (x \<in> set ds \<and> re_match items cs)"

text \<open>\<open>re.search\<close>: the leftmost position where the pattern matches (the text from there on).\<close>

fun re_search :: "re_item list \<Rightarrow> string \<Rightarrow> string option" where
  "re_search p [] = (if re_match p [] then Some [] else None)"
| "re_search p (x # cs) = (if re_match p (x # cs) then Some (x # cs) else re_search p cs)"

text \<open>\<open>m.group(1)\<close> for a pattern \<open>pre(grp)\<close>, or \<open>None\<close> when there is no match.\<close>

definition search_group :: "re_item list \<Rightarrow> re_item list \<Rightarrow> string \<Rightarrow> string option" where
  "search_group pre grp s =
     (case re_search (pre @ grp) s of
        None \<Rightarrow> None
      | Some found \<Rightarrow> Some (take (length grp) (drop (length pre) found)))"

definition pages_group :: "re_item list" where
  "pages_group = [Lit (CHR 0x5C), Class [CHR ''.'', CHR ''*'', CHR ''?'', CHR 0x5C]]"

definition system_info_found_pages :: "re_item list" where
  "system_info_found_pages =
     [Lit (CHR 0x5C), Class (''SYSTEM_INFO'' @ [CHR 0x5C])] @ map Lit '' FOUND_PAGES: ''"

definition found_pages :: "re_item list" where
  "found_pages = map Lit ''FOUND_PAGES: ''"

subsection \<open>The answer dicts\<close>

text \<open>
  \<open>default_answer\<close> is the dict of the validation and error branches (confidence 0.0),
  \<open>fallback_answer\<close> the dict of the three parse fallbacks (confidence 0.7).
\<close>

definition default_answer :: "string \<Rightarrow> string \<Rightarrow> pydict" where
  "default_answer answer info =
     [(''answer'', PStr answer), (''document_ids'', PList []), (''sources'', PList []),
      (''confidence_score'', PFloat 0), (''context_used'', PBool False),
      (''additional_info'', PStr info), (''pages'', PList [])]"

definition fallback_answer :: "string \<Rightarrow> bool \<Rightarrow> string \<Rightarrow> pydict" where
  "fallback_answer result_str has_history info =
     [(''answer'', PStr result_str), (''document_ids'', PList []), (''sources'', PList []),
      (''confidence_score'', PFloat 0.7), (''context_used'', PBool has_history),
      (''additional_info'', PStr info), (''pages'', PList [])]"

definition no_json_found :: string where
  "no_json_found =
     ''Antwort konnte nicht als strukturiertes JSON geparst werden - keine JSON-Struktur gefunden''"

subsection \<open>Parsing the agent's text (lines 672-755)\<close>

text \<open>
  The page list: \<open>re.search\<close> with the first pattern and, only when that finds nothing,
  with the second; \<open>json.loads\<close> of the group, and the empty list when that raises.
\<close>

definition load_pages :: "nat \<Rightarrow> string \<Rightarrow> pyval" where
  "load_pages depth grp = (case json_loads depth grp of Inr v \<Rightarrow> v | Inl e \<Rightarrow> PList [])"

definition extract_pages :: "nat \<Rightarrow> string \<Rightarrow> pyval" where
  "extract_pages depth result_str =
     (case search_group system_info_found_pages pages_group result_str of
        Some grp \<Rightarrow> load_pages depth grp
      | None \<Rightarrow>
          (case search_group found_pages pages_group result_str of
             Some grp \<Rightarrow> load_pages depth grp
           | None \<Rightarrow> PList []))"

definition list_or_empty :: "pyval \<Rightarrow> pyval" where
  "list_or_empty x = (case x of PList xs \<Rightarrow> PList xs | _ \<Rightarrow> PList [])"

text \<open>
  The dict built from the parsed response. The one entry that can raise is the
  confidence score (\<open>float\<close> of a very large \<open>int\<close>); \<open>str\<close> of a decoded value does
  not raise (its ints have at most 4300 digits, and it is nested less deeply than the
  document it was decoded from).
\<close>

definition structured_response ::
  "nat \<Rightarrow> string \<Rightarrow> bool \<Rightarrow> pydict \<Rightarrow> exn + pydict" where
  "structured_response depth result_str has_history parsed_response =
     (let pages = extract_pages depth result_str;
          confidence =
            (if isinstance_int_float (py_get parsed_response ''confidence_score'')
             then py_float (get_default parsed_response ''confidence_score'' (PFloat 0.8))
             else Inr (PFloat 0.8))
      in case confidence of
           Inl e \<Rightarrow> Inl e
         | Inr confidence_score \<Rightarrow>
             Inr [(''answer'', PStr (py_str (get_default parsed_response ''answer''
                                              (PStr result_str)))),
                  (''document_ids'', list_or_empty (py_get parsed_response ''document_ids'')),
                  (''sources'', list_or_empty (py_get parsed_response ''sources'')),
                  (''confidence_score'', confidence_score),
                  (''context_used'',
                     PBool (truthy (get_default parsed_response ''context_used''
                                      (PBool has_history)))),
                  (''additional_info'', py_get parsed_response ''additional_info''),
                  (''pages'', pages)])"

text \<open>
  The inner \<open>try\<close> block: what it returns, or the exception that leaves it. Both calls
  of \<open>json.loads\<close> are made from the same frame, so both have the same \<open>depth\<close>.
\<close>

definition parse_json_response :: "nat \<Rightarrow> string \<Rightarrow> bool \<Rightarrow> exn + pydict" where
  "parse_json_response depth result_str has_history =
     (let json_start = find_str result_str (CHR ''{'');
          json_end = rfind_str result_str (CHR ''}'') + 1
      in if json_start \<noteq> - 1 \<and> json_end \<noteq> - 1 then
           (case json_loads depth (py_slice result_str json_start json_end) of
              Inl e \<Rightarrow> Inl e
            | Inr (PDict parsed_response) \<Rightarrow>
                structured_response depth result_str has_history parsed_response
            | Inr other \<Rightarrow> Inl (Exn ''ValueError'' ''Parsed response is not a dictionary''))
         else Inr (fallback_answer result_str has_history no_json_found))"

text \<open>
  With its two handlers: \<open>except json.JSONDecodeError\<close> and \<open>except Exception\<close>.
\<close>

definition parse_agent_output :: "nat \<Rightarrow> string \<Rightarrow> bool \<Rightarrow> pydict" where
  "parse_agent_output depth result_str has_history =
     (case parse_json_response depth result_str has_history of
        Inr response \<Rightarrow> response
      | Inl e \<Rightarrow>
          if exn_class e = ''JSONDecodeError''
          then fallback_answer result_str has_history
                 (''JSON-Parsing fehlgeschlagen: '' @ exn_msg e)
          else fallback_answer result_str has_history
                 (''Unerwarteter Parsing-Fehler: '' @ exn_msg e))"

subsection \<open>The chat history\<close>

text \<open>
  \<open>has_history = bool(chat_history and len(chat_history) > 0)\<close> and
  \<open>recent_messages = chat_history[-6:]\<close>. \<open>len\<close> raises on an object without a
  length, and slicing a dict raises (TypeError in CPython 3.11). The loop that renders
  the recent messages catches every exception of its body.
\<close>

definition recent_messages :: "pyval \<Rightarrow> exn + pyval" where
  "recent_messages chat_history =
     (case chat_history of
        PList xs \<Rightarrow> Inr (PList (py_slice xs (- 6) (int (length xs))))
      | PStr s \<Rightarrow> Inr (PStr (py_slice s (- 6) (int (length s))))
      | PDict kvs \<Rightarrow>
          Inl (Exn ''TypeError'' (''unhashable type: '' @ [CHR 0x27] @ ''slice'' @ [CHR 0x27]))
      | other \<Rightarrow>
          Inl (Exn ''TypeError'' ([CHR 0x27] @ type_name other @ [CHR 0x27]
                                   @ '' object is not subscriptable'')))"

definition history_context :: "pyval \<Rightarrow> exn + bool \<times> pyval" where
  "history_context chat_history =
     (if \<not> truthy chat_history then Inr (False, PList [])
      else case py_len chat_history of
             Inl e \<Rightarrow> Inl e
           | Inr n \<Rightarrow>
               if 0 < n then
                 (case recent_messages chat_history of
                    Inl e \<Rightarrow> Inl e
                  | Inr recent \<Rightarrow> Inr (True, recent))
               else Inr (False, PList []))"

subsection \<open>The function\<close>

text \<open>
  The collaborators: \<open>setup_agent\<close> (the vector store, the metadata store and the
  retrievers are set up there; it may raise) and the agent run, which stands for
  building the task and the crew, \<open>crew.kickoff()\<close> and \<open>str(result)\<close>. The task
  description is a fixed template filled with the question, \<open>has_history\<close> and the text
  rendered from the recent messages; it goes to the agent only, so the run is given
  these three. The run raises or returns text, and nothing is assumed about the text.
  \<open>json_depth\<close> is the nesting that the interpreter's recursion limit leaves to
  \<open>json.loads\<close> when the function calls it. The first component of the result lists the
  calls made to collaborators.
\<close>

datatype call = SetupAgent string | CrewKickoff string

record agent_env =
  setup_agent :: "string \<Rightarrow> exn option"
  crew_kickoff :: "string \<Rightarrow> bool \<Rightarrow> pyval \<Rightarrow> exn + string"
  json_depth :: nat

definition answer_body ::
  "agent_env \<Rightarrow> string \<Rightarrow> string \<Rightarrow> pyval \<Rightarrow> call list \<times> (exn + pydict)" where
  "answer_body env question namespace chat_history =
     (case setup_agent env namespace of
        Some e \<Rightarrow> ([SetupAgent namespace], Inl e)
      | None \<Rightarrow>
          (case history_context chat_history of
             Inl e \<Rightarrow> ([SetupAgent namespace], Inl e)
           | Inr (has_history, recent) \<Rightarrow>
               (case crew_kickoff env question has_history recent of
                  Inl e \<Rightarrow> ([SetupAgent namespace, CrewKickoff question], Inl e)
                | Inr result_str \<Rightarrow>
                    ([SetupAgent namespace, CrewKickoff question],
                     Inr (parse_agent_output (json_depth env) result_str has_history)))))"

definition answer_question ::
  "agent_env \<Rightarrow> pyval \<Rightarrow> pyval \<Rightarrow> pyval \<Rightarrow> call list \<times> (exn + pydict)" where
  "answer_question env question namespace chat_history =
     (if invalid_text question then
        ([], Inr (default_answer (''Ung'' @ [CHR 0xFC] @ ''ltige Frage'')
                    (''Leere oder ung'' @ [CHR 0xFC] @ ''ltige Frage'')))
      else if invalid_text namespace then
        ([], Inr (default_answer (''Ung'' @ [CHR 0xFC] @ ''ltiger Namespace'')
                    (''Leerer oder ung'' @ [CHR 0xFC] @ ''ltiger Namespace'')))
      else
        let (calls, outcome) = answer_body env (py_str question) (py_str namespace) chat_history
        in (calls,
            try_except outcome
              (\<lambda>e. Inr (default_answer (''Fehler beim Beantworten der Frage: '' @ exn_msg e)
                           (''Fehler aufgetreten: '' @ exn_class e)))))"

text \<open>The seven fields of a Structured Answer, in the order the source writes them.\<close>

definition answer_fields :: "string list" where
  "answer_fields = [''answer'', ''document_ids'', ''sources'', ''confidence_score'',
                    ''context_used'', ''additional_info'', ''pages'']"

section \<open>The chat-history buffer of \<open>send_message\<close> (main.py)\<close>

text \<open>
  \<open>ChatState\<close> holds the agent handle and one history list per namespace. A history
  entry is the dict \<open>{"role": ..., "content": ...}\<close>.
\<close>

record chat_state =
  agent_chatbot :: bool
  chat_history :: "string \<rightharpoonup> pyval list"

definition initial_chat_state :: chat_state where
  "initial_chat_state = \<lparr>agent_chatbot = False, chat_history = Map.empty\<rparr>"

definition history_entry :: "string \<Rightarrow> pyval \<Rightarrow> pyval" where
  "history_entry r c = PDict [(''role'', PStr r), (''content'', c)]"

definition structured_error :: "string \<Rightarrow> string \<Rightarrow> pyval" where
  "structured_error answer info = PDict (default_answer answer info)"

text \<open>
  \<open>message_bot_agent\<close> lives in agent_chatbot.py, which is not among the sources; it is a
  parameter here: given the input, the namespace and the history it either raises or
  returns the answer dict (a Structured Answer, spec section 3), and it does not write
  to the history list it is handed. The function returns the HTTP response and the
  new state.
\<close>

definition send_message ::
  "(string \<Rightarrow> string \<Rightarrow> pyval list \<Rightarrow> exn + pydict) \<Rightarrow> string \<Rightarrow> string \<Rightarrow> chat_state
     \<Rightarrow> pydict \<times> chat_state" where
  "send_message message_bot_agent user_input namespace st =
     (if invalid_text (PStr user_input) then
        ([(''status'', PStr ''error''),
          (''message'', PStr ''User input must be a non-empty string''),
          (''structured_response'',
             structured_error (''Ung'' @ [CHR 0xFC] @ ''ltige Eingabe'')
               (''Leere oder ung'' @ [CHR 0xFC] @ ''ltige Benutzereingabe''))], st)
      else if invalid_text (PStr namespace) then
        ([(''status'', PStr ''error''),
          (''message'', PStr ''Namespace must be a non-empty string''),
          (''structured_response'',
             structured_error (''Ung'' @ [CHR 0xFC] @ ''ltiger Namespace'')
               (''Leerer oder ung'' @ [CHR 0xFC] @ ''ltiger Namespace''))], st)
      else
        let hist = (case chat_history st namespace of None \<Rightarrow> [] | Some h \<Rightarrow> h) in
        (case message_bot_agent user_input namespace hist of
           Inl e \<Rightarrow>
             ([(''status'', PStr ''error''),
               (''message'', PStr (''Error generating response: '' @ exn_msg e)),
               (''structured_response'',
                  structured_error (''Fehler: '' @ exn_msg e) (''Exception: '' @ exn_class e))],
              st)
         | Inr response \<Rightarrow>
             let h1 = hist @ [history_entry ''user'' (PStr user_input),
                              history_entry ''assistant''
                                (get_default response ''answer'' (PStr ''''))];
                 h2 = (if length h1 > 10 then drop (length h1 - 10) h1 else h1)
             in ([(''status'', PStr ''success''),
                  (''message'', PStr ''Agent response generated successfully''),
                  (''structured_response'', PDict response)],
                 st\<lparr>chat_history := (chat_history st)(namespace \<mapsto> h2)\<rparr>)))"

text \<open>
  \<open>start_bot\<close> installs the agent and, when neither \<open>get_bot()\<close> nor
  \<open>start_bot_agent()\<close> raised, replaces the history by the empty dict.
\<close>

definition start_bot :: "bool \<Rightarrow> bool \<Rightarrow> chat_state \<Rightarrow> chat_state" where
  "start_bot get_bot_ok start_ok st =
     (if \<not> get_bot_ok then st
      else if \<not> start_ok then st\<lparr>agent_chatbot := True\<rparr>
      else st\<lparr>agent_chatbot := True, chat_history := Map.empty\<rparr>)"

text \<open>
  The states the server can be in: the initial one, and any state after a
  \<open>send_message\<close> (whatever the agent does), a \<open>start_bot\<close>, or a
  \<open>get_namespace_info\<close> (which only installs the agent).
\<close>

inductive reachable :: "chat_state \<Rightarrow> bool" where
  reach_init: "reachable initial_chat_state"
| reach_send: "reachable st \<Longrightarrow> reachable (snd (send_message agent user_input namespace st))"
| reach_start: "reachable st \<Longrightarrow> reachable (start_bot get_bot_ok start_ok st)"
| reach_info: "reachable st \<Longrightarrow> reachable (st\<lparr>agent_chatbot := True\<rparr>)"

definition history_capped :: "chat_state \<Rightarrow> bool" where
  "history_capped st = (\<forall>ns h. chat_history st ns = Some h \<longrightarrow> length h \<le> 10)"

definition history_of :: "chat_state \<Rightarrow> string \<Rightarrow> pyval list" where
  "history_of st ns = (case chat_history st ns of None \<Rightarrow> [] | Some h \<Rightarrow> h)"

section \<open>The metadata store (firebase_connection.py)\<close>

text \<open>
  The Firebase client is a collaborator: \<open>db_get path\<close> is the outcome of
  \<open>self._db.reference(path).get()\<close> (an exception or the stored object) and
  \<open>db_delete path\<close> the outcome of \<open>ref.delete()\<close> (an exception, or nothing).
\<close>

definition delete_document_metadata ::
  "(string \<Rightarrow> exn + pyval) \<Rightarrow> (string \<Rightarrow> exn option) \<Rightarrow> string \<Rightarrow> string \<Rightarrow> pydict" where
  "delete_document_metadata db_get db_delete namespace fileID =
     (let path = ''files/'' @ namespace @ ''/'' @ fileID;
          failed = (\<lambda>e. [(''status'', PStr ''error''),
                          (''message'', PStr (''Error deleting metadata: '' @ exn_msg e))])
      in case db_get path of
           Inl e \<Rightarrow> failed e
         | Inr existing_data \<Rightarrow>
             if \<not> truthy existing_data then
               [(''status'', PStr ''error''),
                (''message'', PStr (''No metadata found for '' @ fileID))]
             else (case db_delete path of
                     Some e \<Rightarrow> failed e
                   | None \<Rightarrow>
                       [(''status'', PStr ''success''),
                        (''message'', PStr (''Metadata for '' @ fileID @ '' successfully deleted'')),
                        (''path'', PStr path)]))"

definition get_namespace_data :: "(string \<Rightarrow> exn + pyval) \<Rightarrow> string \<Rightarrow> pydict" where
  "get_namespace_data db_get namespace =
     (case db_get (''files/'' @ namespace) of
        Inl e \<Rightarrow>
          [(''status'', PStr ''error''),
           (''message'', PStr (''Error retrieving data for namespace '' @ namespace @ '': ''
                                 @ exn_msg e))]
      | Inr data \<Rightarrow>
          if truthy data then [(''status'', PStr ''success''), (''data'', data)]
          else [(''status'', PStr ''error''), (''data'', PDict []),
                (''message'', PStr (''No data found for namespace '' @ namespace))])"

definition get_project_info :: "(string \<Rightarrow> exn + pyval) \<Rightarrow> string \<Rightarrow> pydict" where
  "get_project_info db_get project_name =
     (case db_get (''/files/'' @ project_name @ ''/info'') of
        Inl e \<Rightarrow>
          [(''status'', PStr ''error''),
           (''message'', PStr (''Error getting project info: '' @ exn_msg e))]
      | Inr data \<Rightarrow>
          if truthy data then [(''status'', PStr ''success''), (''data'', data)]
          else [(''status'', PStr ''error''), (''message'', PStr ''Project not found'')])"

section \<open>\<open>AgentProcessor.delete_document\<close> (agent_processor.py)\<close>

text \<open>
  \<open>vector_outcome\<close> is the outcome of \<open>self._vector_manager.delete_document(namespace,
  fileID)\<close>; the vector manager is not among the sources, its result is a dict (or it
  raises, and then so does \<open>delete_document\<close>, which has no handler).
  \<open>str(True)\<close> is \<open>True\<close>.
\<close>

definition str_bool :: "bool \<Rightarrow> string" where
  "str_bool b = (if b then ''True'' else ''False'')"

definition delete_document ::
  "bool \<Rightarrow> exn + pydict \<Rightarrow> (string \<Rightarrow> exn + pyval) \<Rightarrow> (string \<Rightarrow> exn option) \<Rightarrow> string \<Rightarrow> string
     \<Rightarrow> exn + pydict" where
  "delete_document firebase_available vector_outcome db_get db_delete namespace fileID =
     (case vector_outcome of
        Inl e \<Rightarrow> Inl e
      | Inr vector_result \<Rightarrow>
          let pinecone_deleted = (py_get vector_result ''status'' = PStr ''success'');
              firebase_result =
                (if firebase_available
                 then delete_document_metadata db_get db_delete namespace fileID
                 else [(''status'', PStr ''success''),
                       (''message'', PStr ''Firebase not available'')]);
              firebase_deleted =
                (firebase_available \<and> py_get firebase_result ''status'' = PStr ''success'')
          in Inr [(''status'', PStr (if pinecone_deleted then ''success'' else ''error'')),
                  (''message'', PStr (''Document '' @ fileID @ '' deletion - Pinecone: ''
                       @ str_bool pinecone_deleted @ '', Firebase: ''
                       @ str_bool firebase_deleted)),
                  (''vector_result'', PDict vector_result),
                  (''firebase_result'', PDict firebase_result)])"

section \<open>\<open>AgentProcessor.get_namespace_summary\<close> (agent_processor.py)\<close>

definition document_info :: "string \<Rightarrow> pydict \<Rightarrow> pydict" where
  "document_info doc_id doc_data =
     [(''id'', PStr doc_id),
      (''name'', get_default doc_data ''name'' (PStr doc_id)),
      (''summary'', get_default doc_data ''summary''
                      (PStr (''Keine Zusammenfassung verf'' @ [CHR 0xFC] @ ''gbar''))),
      (''chunk_count'', get_default doc_data ''chunk_count''
                          (get_default doc_data ''chunks'' (PInt 0))),
      (''status'', get_default doc_data ''status'' (PStr ''Unknown'')),
      (''date'', get_default doc_data ''date'' (PStr [])),
      (''processing'', get_default doc_data ''processing'' (PBool False)),
      (''progress'', get_default doc_data ''progress'' (PInt 0)),
      (''path'', get_default doc_data ''path'' (PStr [])),
      (''storageURL'', get_default doc_data ''storageURL'' (PStr []))]
     @ (if has_key doc_data ''additional_info''
        then [(''additional_info'', py_get doc_data ''additional_info'')] else [])"

text \<open>The loop over \<open>namespace_data.items()\<close>.\<close>

fun collect_documents :: "pydict \<Rightarrow> pyval list" where
  "collect_documents [] = []"
| "collect_documents ((doc_id, doc_data) # rest) =
     (case doc_data of
        PDict dd \<Rightarrow>
          (if has_key dd ''summary'' \<or> has_key dd ''status'' \<or> has_key dd ''chunk_count''
           then PDict (document_info doc_id dd) # collect_documents rest
           else collect_documents rest)
      | _ \<Rightarrow> collect_documents rest)"

text \<open>
  The body of the \<open>try\<close> block. The one place it can raise is
  \<open>namespace_data.items()\<close>, when the store returns a truthy object that is not a dict
  (Firebase returns a list for a node whose keys are consecutive integers).
\<close>

definition namespace_summary_body ::
  "bool \<Rightarrow> (string \<Rightarrow> exn + pyval) \<Rightarrow> string \<Rightarrow> exn + pydict" where
  "namespace_summary_body firebase_available db_get namespace =
     (let none_found = (\<lambda>project_info.
            Inr [(''status'', PStr ''success''), (''namespace'', PStr namespace),
                 (''document_count'', PInt 0), (''documents'', PList []),
                 (''project_info'', project_info),
                 (''message'', PStr ''No documents found or Firebase not available'')])
      in if firebase_available then
           let project_info_result = get_project_info db_get namespace;
               project_info =
                 (if py_get project_info_result ''status'' = PStr ''success''
                  then py_get project_info_result ''data'' else PNone);
               firebase_result = get_namespace_data db_get namespace
           in if py_get firebase_result ''status'' = PStr ''success''
                 \<and> truthy (py_get firebase_result ''data'')
              then (case py_get firebase_result ''data'' of
                      PDict namespace_data \<Rightarrow>
                        let documents = collect_documents namespace_data
                        in Inr [(''status'', PStr ''success''), (''namespace'', PStr namespace),
                                (''document_count'', PInt (int (length documents))),
                                (''documents'', PList documents),
                                (''project_info'', project_info)]
                    | other \<Rightarrow>
                        Inl (Exn ''AttributeError''
                               ([CHR 0x27] @ type_name other @ [CHR 0x27]
                                @ '' object has no attribute '' @ [CHR 0x27] @ ''items''
                                @ [CHR 0x27])))
              else none_found project_info
         else none_found PNone)"

definition get_namespace_summary ::
  "bool \<Rightarrow> (string \<Rightarrow> exn + pyval) \<Rightarrow> string \<Rightarrow> exn + pydict" where
  "get_namespace_summary firebase_available db_get namespace =
     try_except (namespace_summary_body firebase_available db_get namespace)
       (\<lambda>e. Inr [(''status'', PStr ''error''),
                  (''message'', PStr (''Error getting namespace summary: '' @ exn_msg e))])"

definition entry_has_fields :: "pyval \<Rightarrow> bool" where
  "entry_has_fields e =
     (case e of
        PDict kv \<Rightarrow> has_key kv ''id'' \<and> has_key kv ''name'' \<and> has_key kv ''summary''
                    \<and> has_key kv ''chunk_count'' \<and> has_key kv ''status''
      | _ \<Rightarrow> False)"

section \<open>\<open>pdf_search_tool\<close> (agent_processor.py, inside \<open>setup_agent\<close>)\<close>

text \<open>
  A retrieved fragment is a LangChain document; the tool tests for its two attributes,
  so each is optional here (\<open>None\<close>: the attribute is missing). The retriever returns
  \<open>None\<close>, something that is no list (only its type's text is used), or a list of
  fragments.
\<close>

record fragment =
  metadata :: "pyval option"
  page_content :: "pyval option"

datatype retrieval = NoneResult | NotAList string | Docs "fragment list"

text \<open>
  The collaborators: \<open>compression_retriever.invoke(query)\<close>; the adjacent-chunk lookup
  \<open>self._get_adjacent_chunks_content(namespace, doc_id, chunk_id)\<close> of the vector
  manager (the namespace is fixed by the closure); and the order in which Python
  iterates a set, which the language leaves open.
\<close>

record search_env =
  retrieve :: "string \<Rightarrow> exn + retrieval"
  adjacent_content :: "pyval \<Rightarrow> pyval \<Rightarrow> exn + pyval"
  set_order :: "pyval list \<Rightarrow> pyval list"

subsection \<open>The document-ID filter\<close>

fun split_on :: "char \<Rightarrow> string \<Rightarrow> string list" where
  "split_on sep [] = [[]]"
| "split_on sep (c # cs) =
     (if c = sep then [] # split_on sep cs
      else (case split_on sep cs of w # ws \<Rightarrow> (c # w) # ws | [] \<Rightarrow> [[c]]))"

text \<open>
  \<open>target_doc_ids\<close> is \<open>None\<close> or a list and is only tested for truth, so \<open>None\<close> is
  the empty list here.
\<close>

definition target_doc_ids :: "string \<Rightarrow> string list" where
  "target_doc_ids document_ids =
     (if document_ids \<noteq> [] \<and> strip document_ids \<noteq> []
      then filter (\<lambda>doc_id. doc_id \<noteq> []) (map strip (split_on (CHR '','') document_ids))
      else [])"

definition filter_doc_id :: "pydict \<Rightarrow> pyval" where
  "filter_doc_id md = get_default md ''document_id'' (get_default md ''pdf_id'' (PStr ''unknown''))"

definition passes_filter :: "string list \<Rightarrow> fragment \<Rightarrow> bool" where
  "passes_filter target doc =
     (case metadata doc of
        Some (PDict md) \<Rightarrow> filter_doc_id md \<in> set (map PStr target)
      | _ \<Rightarrow> False)"

subsection \<open>Sets and dicts keyed by objects\<close>

text \<open>
  \<open>==\<close> on the objects of the model: numbers compare by value across \<open>bool\<close>, \<open>int\<close>
  and \<open>float\<close>. A list or a dict cannot be hashed. (Two nan floats are taken as equal.)
\<close>

definition num_of :: "pyval \<Rightarrow> rat option" where
  "num_of x =
     (case x of PBool b \<Rightarrow> Some (if b then 1 else 0) | PInt i \<Rightarrow> Some (of_int i)
              | PFloat r \<Rightarrow> Some r | _ \<Rightarrow> None)"

definition py_eq :: "pyval \<Rightarrow> pyval \<Rightarrow> bool" where
  "py_eq a b =
     (case (num_of a, num_of b) of
        (Some x, Some y) \<Rightarrow> x = y
      | (None, None) \<Rightarrow> a = b
      | _ \<Rightarrow> False)"

definition hashable :: "pyval \<Rightarrow> bool" where
  "hashable x = (case x of PList xs \<Rightarrow> False | PDict kvs \<Rightarrow> False | _ \<Rightarrow> True)"

definition set_add :: "pyval list \<Rightarrow> pyval \<Rightarrow> pyval list" where
  "set_add s x = (if list_ex (py_eq x) s then s else s @ [x])"

fun index_lookup :: "(pyval \<times> nat) list \<Rightarrow> pyval \<Rightarrow> nat option" where
  "index_lookup [] x = None"
| "index_lookup ((k, v) # m) x = (if py_eq k x then Some v else index_lookup m x)"

definition index_add :: "(pyval \<times> nat) list \<Rightarrow> pyval \<Rightarrow> (pyval \<times> nat) list" where
  "index_add m x = (case index_lookup m x of None \<Rightarrow> m @ [(x, length m)] | Some v \<Rightarrow> m)"

subsection \<open>Page numbers\<close>

text \<open>
  \<open>for p in pages\<close>: the elements of a list, the characters of a text, the keys of a
  dict; anything else is not iterable. Each \<open>used_pages.add(int(p))\<close> sits in its own
  \<open>try\<close>, so a value that \<open>int\<close> rejects is skipped.
\<close>

definition iterate :: "pyval \<Rightarrow> exn + pyval list" where
  "iterate x =
     (case x of
        PList xs \<Rightarrow> Inr xs
      | PStr s \<Rightarrow> Inr (map (\<lambda>c. PStr [c]) s)
      | PDict kvs \<Rightarrow> Inr (map (\<lambda>kv. PStr (fst kv)) kvs)
      | other \<Rightarrow> Inl (Exn ''TypeError'' ([CHR 0x27] @ type_name other @ [CHR 0x27]
                                          @ '' object is not iterable'')))"

definition add_page :: "int list \<Rightarrow> pyval \<Rightarrow> int list" where
  "add_page used p = (case py_int p of Inr i \<Rightarrow> List.insert i used | Inl e \<Rightarrow> used)"

text \<open>\<open>pages[0]\<close> for a non-empty list, text or dict (a dict with text keys has no key 0).\<close>

definition first_item :: "pyval \<Rightarrow> exn + pyval" where
  "first_item x =
     (case x of
        PList (y # ys) \<Rightarrow> Inr y
      | PStr (c # cs) \<Rightarrow> Inr (PStr [c])
      | PDict kvs \<Rightarrow> Inl (Exn ''KeyError'' ''0'')
      | PList [] \<Rightarrow> Inl (Exn ''IndexError'' ''list index out of range'')
      | PStr [] \<Rightarrow> Inl (Exn ''IndexError'' ''string index out of range'')
      | other \<Rightarrow> Inl (Exn ''TypeError'' ([CHR 0x27] @ type_name other @ [CHR 0x27]
                                          @ '' object is not subscriptable'')))"

subsection \<open>The loop over the fragments\<close>

text \<open>
  The variables the loop carries. \<open>page_number\<close> is a local of the enclosing function
  that only the dict branch assigns, so a later fragment whose metadata is no dict reads
  the value an earlier fragment left (\<open>None\<close> here: not yet assigned).
\<close>

record loop_state =
  results :: "string list"
  found_doc_ids :: "pyval list"
  used_pages :: "int list"
  chunk_counter :: nat
  doc_index_map :: "(pyval \<times> nat) list"
  page_number_var :: "pyval option"

definition initial_loop_state :: loop_state where
  "initial_loop_state =
     \<lparr>results = [], found_doc_ids = [], used_pages = [], chunk_counter = 1,
      doc_index_map = [], page_number_var = None\<rparr>"

text \<open>
  Reading the metadata (lines 328-353): the document id, the chunk id and the pages, or
  the exception that ends this fragment; the state holds what was assigned and collected
  up to there.
\<close>

definition read_metadata ::
  "nat \<Rightarrow> pyval \<Rightarrow> loop_state \<Rightarrow> loop_state \<times> (exn + pyval \<times> pyval \<times> pyval)" where
  "read_metadata i md st =
     (case md of
        PDict m \<Rightarrow>
          let doc_id = get_default m ''document_id''
                         (get_default m ''pdf_id'' (PStr (''unknown_'' @ show_nat i)));
              chunk_id = py_get m ''chunk_id'';
              pages = py_get m ''pages'';
              page_number = py_get m ''page_number'';
              st1 = st\<lparr>page_number_var := Some page_number\<rparr>
          in (case (if truthy pages then iterate pages else Inr []) of
                Inl e \<Rightarrow> (st1, Inl e)
              | Inr ps \<Rightarrow>
                  let st2 = st1\<lparr>used_pages := foldl add_page (used_pages st1) ps\<rparr>;
                      st3 = (if truthy page_number
                             then st2\<lparr>used_pages := add_page (used_pages st2) page_number\<rparr>
                             else st2)
                  in (st3, Inr (doc_id, chunk_id, pages)))
      | other \<Rightarrow> (st, Inr (PStr (''unknown_'' @ show_nat i), PNone, PNone)))"

text \<open>
  \<open>current_page\<close> (lines 372-376). With no pages the local \<open>page_number\<close> is read, which
  raises UnboundLocalError when nothing has assigned it yet.
\<close>

definition current_page_of :: "pyval \<Rightarrow> pyval option \<Rightarrow> exn + pyval" where
  "current_page_of pages page_number =
     (if truthy pages then first_item pages
      else (case page_number of
              None \<Rightarrow>
                Inl (Exn ''UnboundLocalError''
                       (''cannot access local variable '' @ [CHR 0x27] @ ''page_number''
                        @ [CHR 0x27] @ '' where it is not associated with a value''))
            | Some pn \<Rightarrow> Inr (if truthy pn then pn else PNone)))"

definition pages_str_of :: "pyval \<Rightarrow> pyval option \<Rightarrow> string" where
  "pages_str_of pages page_number =
     (if truthy pages then ''[PAGES: '' @ py_str pages @ ''] ''
      else (case page_number of
              Some pn \<Rightarrow> if truthy pn then ''[PAGES: ['' @ py_str pn @ '']] '' else []
            | None \<Rightarrow> []))"

text \<open>The block markers, e.g. \<open>--- DOK1 CHUNK 2b (HAUPTTREFFER) SEITE 4 START ---\<close>.\<close>

definition marker :: "nat \<Rightarrow> nat \<Rightarrow> string \<Rightarrow> string \<Rightarrow> string" where
  "marker doc_index counter part_name boundary =
     ''--- DOK'' @ show_nat (doc_index + 1) @ '' CHUNK '' @ show_nat counter @ part_name
     @ '' '' @ boundary @ '' ---''"

definition page_info :: "pyval \<Rightarrow> string" where
  "page_info current_page = (if truthy current_page then '' SEITE '' @ py_str current_page else [])"

definition formatted_content :: "nat \<Rightarrow> nat \<Rightarrow> pyval \<Rightarrow> string \<Rightarrow> string" where
  "formatted_content doc_index counter current_page content =
     marker doc_index counter (''b (HAUPTTREFFER)'' @ page_info current_page) ''START''
     @ [CHR 0x0A] @ content @ [CHR 0x0A]
     @ marker doc_index counter (''b (HAUPTTREFFER)'' @ page_info current_page) ''END''"

text \<open>\<open>"\n".join(chunk_set)\<close> raises when an item is not text.\<close>

definition is_str :: "pyval \<Rightarrow> bool" where
  "is_str x = (case x of PStr s \<Rightarrow> True | _ \<Rightarrow> False)"

definition join_lines :: "pyval list \<Rightarrow> exn + string" where
  "join_lines xs =
     (if list_all is_str xs then Inr (join [CHR 0x0A] (map py_str xs))
      else Inl (Exn ''TypeError''
             (''sequence item '' @ show_nat (length (takeWhile is_str xs))
              @ '': expected str instance, ''
              @ type_name (hd (dropWhile is_str xs)) @ '' found'')))"

text \<open>The body of the inner \<open>try\<close> (lines 387-415): the main hit with its neighbours.\<close>

definition enhanced_content ::
  "search_env \<Rightarrow> pyval \<Rightarrow> pyval \<Rightarrow> nat \<Rightarrow> nat \<Rightarrow> pyval \<Rightarrow> string \<Rightarrow> exn + string" where
  "enhanced_content env doc_id chunk_id doc_index counter current_page content =
     (case adjacent_content env doc_id chunk_id of
        Inl e \<Rightarrow> Inl e
      | Inr (PDict adjacent_chunks) \<Rightarrow>
          join_lines
            ((if truthy (py_get adjacent_chunks ''previous'')
              then [PStr (marker doc_index counter ''a (VORHERIGER)'' ''START''),
                    py_get adjacent_chunks ''previous'',
                    PStr (marker doc_index counter ''a (VORHERIGER)'' ''END'')]
              else [])
             @ [PStr (marker doc_index counter
                        (''b (HAUPTTREFFER)'' @ page_info current_page) ''START''),
                PStr content,
                PStr (marker doc_index counter
                        (''b (HAUPTTREFFER)'' @ page_info current_page) ''END'')]
             @ (if truthy (py_get adjacent_chunks ''next'')
                then [PStr (marker doc_index counter (''c (N'' @ [CHR 0xC4] @ ''CHSTER)'') ''START''),
                      py_get adjacent_chunks ''next'',
                      PStr (marker doc_index counter (''c (N'' @ [CHR 0xC4] @ ''CHSTER)'') ''END'')]
                else []))
      | Inr other \<Rightarrow>
          Inl (Exn ''AttributeError''
                 ([CHR 0x27] @ type_name other @ [CHR 0x27] @ '' object has no attribute ''
                  @ [CHR 0x27] @ ''get'' @ [CHR 0x27])))"

definition is_int :: "pyval \<Rightarrow> bool" where
  "is_int x = (case x of PInt i \<Rightarrow> True | PBool b \<Rightarrow> True | _ \<Rightarrow> False)"

definition block_of ::
  "search_env \<Rightarrow> pyval \<Rightarrow> pyval \<Rightarrow> nat \<Rightarrow> nat \<Rightarrow> pyval \<Rightarrow> string \<Rightarrow> string" where
  "block_of env doc_id chunk_id doc_index counter current_page content =
     (if is_int chunk_id then
        (case enhanced_content env doc_id chunk_id doc_index counter current_page content of
           Inr text \<Rightarrow> text
         | Inl e \<Rightarrow> formatted_content doc_index counter current_page content)
      else formatted_content doc_index counter current_page content)"

text \<open>
  One pass of the loop body (lines 321-434). Every exception of the body ends the pass
  (\<open>except Exception: continue\<close>) and leaves what was written before it.
\<close>

definition extract_one :: "search_env \<Rightarrow> nat \<Rightarrow> fragment \<Rightarrow> loop_state \<Rightarrow> loop_state" where
  "extract_one env i doc st =
     (case (metadata doc, page_content doc) of
        (Some md, Some pc) \<Rightarrow>
          (case read_metadata i md st of
             (st1, Inl e) \<Rightarrow> st1
           | (st1, Inr (doc_id, chunk_id, pages)) \<Rightarrow>
               let content = py_str pc
               in if strip content = [] then st1
                  else if \<not> hashable doc_id then st1
                  else
                    let st2 = st1\<lparr>found_doc_ids := set_add (found_doc_ids st1) doc_id,
                                  doc_index_map := index_add (doc_index_map st1) doc_id\<rparr>;
                        doc_index = (case index_lookup (doc_index_map st2) doc_id of
                                       Some k \<Rightarrow> k | None \<Rightarrow> 0)
                    in (case current_page_of pages (page_number_var st2) of
                          Inl e \<Rightarrow> st2
                        | Inr current_page \<Rightarrow>
                            st2\<lparr>results := results st2 @
                                   [''[DOC_ID: '' @ py_str doc_id @ ''] ''
                                    @ pages_str_of pages (page_number_var st2) @ '' ''
                                    @ block_of env doc_id chunk_id doc_index (chunk_counter st2)
                                        current_page content],
                                chunk_counter := chunk_counter st2 + 1\<rparr>))
      | _ \<Rightarrow> st)"

fun extract_all :: "search_env \<Rightarrow> nat \<Rightarrow> fragment list \<Rightarrow> loop_state \<Rightarrow> loop_state" where
  "extract_all env i [] st = st"
| "extract_all env i (doc # docs) st = extract_all env (Suc i) docs (extract_one env i doc st)"

subsection \<open>The tool\<close>

text \<open>
  What the tool returns: one of its fixed messages, or the assembled context, given by
  the final loop state and the filter in force. \<open>render\<close> writes the context as the
  source does: the blocks, then the lines FOUND_DOCUMENT_IDS and FOUND_PAGES, then, with
  a filter, FILTERED_BY_DOC_IDS. No step outside the inner handlers raises in this
  model, so the outermost handler of the source has no branch here.
\<close>

datatype tool_result = Message string | Context loop_state "string list"

definition no_documents_found :: string where
  "no_documents_found = ''KEINE DOKUMENTE GEFUNDEN: Keine relevanten Dokumente gefunden.''"

definition no_match_in_filter :: "string list \<Rightarrow> string" where
  "no_match_in_filter target =
     ''KEINE DOKUMENTE IN GEFILTERTEN IDs: Keine relevanten Dokumente in ''
     @ py_repr (PList (map PStr target)) @ '' gefunden.''"

definition search :: "search_env \<Rightarrow> pyval \<Rightarrow> string \<Rightarrow> tool_result" where
  "search env query document_ids =
     (if invalid_text query then
        Message (''FEHLER: Suchanfrage ist leer oder ung'' @ [CHR 0xFC] @ ''ltig.'')
      else
        let target = target_doc_ids document_ids
        in case retrieve env (py_str query) of
             Inl e \<Rightarrow> Message (''FEHLER BEI PINECONE-SUCHE: '' @ exn_msg e)
           | Inr NoneResult \<Rightarrow>
               Message (''FEHLER: Pinecone-Antwort ist None - m'' @ [CHR 0xF6]
                        @ ''glicherweise Verbindungsproblem.'')
           | Inr (NotAList type_text) \<Rightarrow>
               Message (''FEHLER: Unerwarteter Response-Typ von Pinecone: '' @ type_text)
           | Inr (Docs docs) \<Rightarrow>
               if docs = [] then Message no_documents_found
               else
                 let kept = (if target \<noteq> [] then filter (passes_filter target) docs else docs)
                 in if target \<noteq> [] \<and> kept = [] then Message (no_match_in_filter target)
                    else
                      let st = extract_all env 0 kept initial_loop_state
                      in if results st = [] then
                           Message (''KEINE RELEVANTEN INHALTE: Dokumente gefunden, ''
                                    @ ''aber keine relevanten Informationen.'')
                         else Context st target)"

definition pages_sorted :: "loop_state \<Rightarrow> int list" where
  "pages_sorted st = sort (used_pages st)"

definition render :: "search_env \<Rightarrow> tool_result \<Rightarrow> string" where
  "render env r =
     (case r of
        Message text \<Rightarrow> text
      | Context st target \<Rightarrow>
          join [CHR 0x0A, CHR 0x0A] (results st)
          @ [CHR 0x0A, CHR 0x0A] @ ''[SYSTEM_INFO] FOUND_DOCUMENT_IDS: ''
          @ py_repr (PList (set_order env (found_doc_ids st)))
          @ [CHR 0x0A] @ ''[SYSTEM_INFO] FOUND_PAGES: ''
          @ py_repr (PList (map PInt (pages_sorted st)))
          @ (if target \<noteq> []
             then [CHR 0x0A] @ ''[SYSTEM_INFO] FILTERED_BY_DOC_IDS: ''
                  @ py_repr (PList (map PStr target))
             else []))"

definition pdf_search_tool :: "search_env \<Rightarrow> pyval \<Rightarrow> string \<Rightarrow> string" where
  "pdf_search_tool env query document_ids = render env (search env query document_ids)"

text \<open>The page numbers of the FOUND_PAGES line of a result (none when there is no such line).\<close>

definition emitted_pages :: "tool_result \<Rightarrow> int list" where
  "emitted_pages r = (case r of Message text \<Rightarrow> [] | Context st target \<Rightarrow> pages_sorted st)"


section \<open>Sample inputs\<close>

text \<open>Concrete collaborators and inputs at which the theorems below are instantiated.\<close>

definition echo_agent :: "string \<Rightarrow> string \<Rightarrow> pyval list \<Rightarrow> exn + pydict" where
  "echo_agent q ns h = Inr [(''answer'', PStr (''re: '' @ q))]"

definition five_turns :: chat_state where
  "five_turns =
     snd (send_message echo_agent ''e'' ''kurs'' (snd (send_message echo_agent ''d'' ''kurs''
    (snd (send_message echo_agent ''c'' ''kurs'' (snd (send_message echo_agent ''b'' ''kurs''
    (snd (send_message echo_agent ''a'' ''kurs'' initial_chat_state)))))))))"

text \<open>
  A namespace node with one document, an entry that is no document, and a scalar; and a
  store that returns a list for every path.
\<close>

definition sample_store :: "string \<Rightarrow> exn + pyval" where
  "sample_store path =
     (if path = ''files/kurs'' then
        Inr (PDict [(''doc1'', PDict [(''summary'', PStr ''Modulhandbuch''),
                                      (''chunk_count'', PInt 3)]),
                    (''example_questions'', PDict [(''questions'', PList [])]),
                    (''info'', PStr ''Informatik'')])
      else Inr PNone)"

definition list_store :: "string \<Rightarrow> exn + pyval" where
  "list_store path = Inr (PList [PStr ''a''])"

text \<open>An agent whose run returns a given text, under an interpreter with room to spare.\<close>

definition agent_says :: "string \<Rightarrow> agent_env" where
  "agent_says raw =
     \<lparr>setup_agent = (\<lambda>ns. None), crew_kickoff = (\<lambda>q h r. Inr raw), json_depth = 900\<rparr>"

text \<open>
  A retriever returning two fragments: one of document A on page 7 whose compressed
  content is blank, and one of document B with no page information.
\<close>

definition blank_fragment :: fragment where
  "blank_fragment =
     \<lparr>metadata = Some (PDict [(''document_id'', PStr ''A''), (''pages'', PList [PInt 7])]),
      page_content = Some (PStr ''   '')\<rparr>"

definition text_fragment :: fragment where
  "text_fragment =
     \<lparr>metadata = Some (PDict [(''document_id'', PStr ''B'')]),
      page_content = Some (PStr ''Text'')\<rparr>"

definition two_fragments :: search_env where
  "two_fragments =
     \<lparr>retrieve = (\<lambda>q. Inr (Docs [blank_fragment, text_fragment])),
      adjacent_content = (\<lambda>d c. Inr (PDict [])),
      set_order = (\<lambda>xs. xs)\<rparr>"

definition no_fragments :: search_env where
  "no_fragments =
     \<lparr>retrieve = (\<lambda>q. Inr (Docs [])),
      adjacent_content = (\<lambda>d c. Inr (PDict [])),
      set_order = (\<lambda>xs. xs)\<rparr>"

text \<open>
  Two agent texts: one with an opening brace and no closing brace, and one holding a JSON
  object followed by the marker line of the search tool.
\<close>

definition raw_open_brace :: string where
  "raw_open_brace = ''Hallo {''"

definition raw_with_marker :: string where
  "raw_with_marker =
     ''{'' @ [CHR 0x22] @ ''answer'' @ [CHR 0x22] @ '': '' @ [CHR 0x22] @ ''A'' @ [CHR 0x22]
     @ ''} [SYSTEM_INFO] FOUND_PAGES: [4]''"

section \<open>Theorems: the decoder\<close>

text \<open>
  Every scanner that succeeds has consumed input, and with the budget that \<open>json_loads\<close>
  sets the scanners never run out of calls. The decoder returns a value or raises
  JSONDecodeError, RecursionError (only when the nesting exceeds \<open>depth\<close>) or
  ValueError (only on an integer of more than 4300 digits).
\<close>

lemma skip_ws_length: "length (skip_ws cs) \<le> length cs"
  by (simp add: skip_ws_def length_dropWhile_le)

lemma scanstring_consumes:
  "scanstring n b acc cs = Inr (s, rest) \<Longrightarrow> length rest < length cs"
proof (induction n b acc cs rule: scanstring.induct)
  case (1 n b acc)
  then show ?case by simp
next
  case (2 n b acc c cs)
  show ?case
  proof (cases "c = CHR 0x22")
    case True
    with "2.prems" show ?thesis by simp
  next
    case nq: False
    show ?thesis
    proof (cases "c = CHR 0x5C")
      case False
      with nq "2.prems" "2.IH"(5) show ?thesis
        by (auto split: if_splits)
    next
      case bs: True
      show ?thesis
      proof (cases cs)
        case Nil
        with nq bs "2.prems" show ?thesis by simp
      next
        case (Cons esc cs1)
        show ?thesis
        proof (cases "esc = CHR ''u''")
          case False
          with nq bs Cons "2.prems" "2.IH"(1) [of esc cs1] show ?thesis
            by (auto split: option.splits)
        next
          case u: True
          with nq bs Cons "2.prems" "2.IH"(2-4) [of esc cs1] show ?thesis
            by (auto simp: Let_def split: option.splits if_splits) force+
        qed
      qed
    qed
  qed
qed

lemma int_part_consumes: "int_part cs = Some (ip, r) \<Longrightarrow> length r < length cs"
proof -
  assume a: "int_part cs = Some (ip, r)"
  then have ne: "cs \<noteq> []" and dg: "is_digit (hd cs)"
    by (auto simp: int_part_def split: if_splits)
  then obtain c cs' where cs: "cs = c # cs'" and c: "is_digit c" by (cases cs) auto
  from a cs c have "r = cs' \<or> r = dropWhile is_digit cs'"
    by (auto simp: int_part_def split: if_splits)
  then show ?thesis using cs length_dropWhile_le [of is_digit cs'] by auto
qed

lemma opt_frac_length: "opt_frac r = (fd, r2) \<Longrightarrow> length r2 \<le> length r"
proof -
  assume a: "opt_frac r = (fd, r2)"
  then have "r2 = r \<or> r2 = dropWhile is_digit (tl r)"
    by (auto simp: opt_frac_def split: if_splits)
  then show ?thesis using length_dropWhile_le [of is_digit "tl r"] by auto
qed

lemma opt_exp_length: "opt_exp r = (e, r3) \<Longrightarrow> length r3 \<le> length r"
proof -
  assume a: "opt_exp r = (e, r3)"
  then have "r3 = r \<or> r3 = dropWhile is_digit (tl r) \<or> r3 = dropWhile is_digit (tl (tl r))"
    by (auto simp: opt_exp_def Let_def split: if_splits)
  then show ?thesis
    using length_dropWhile_le [of is_digit "tl r"] length_dropWhile_le [of is_digit "tl (tl r)"]
    by auto
qed

lemma match_number_consumes:
  assumes "match_number cs = Some (Inr (v, rest))"
  shows "length rest < length cs"
proof -
  from assms obtain ip r1 fd r2 e where
    i: "int_part (if cs \<noteq> [] \<and> hd cs = CHR ''-'' then tl cs else cs) = Some (ip, r1)"
    and f: "opt_frac r1 = (fd, r2)" and x: "opt_exp r2 = (e, rest)"
    by (auto simp: match_number_def Let_def split: option.splits prod.splits if_splits)
  from i have "length r1 < length (if cs \<noteq> [] \<and> hd cs = CHR ''-'' then tl cs else cs)"
    by (rule int_part_consumes)
  then have "length r1 < length cs" by (auto split: if_splits)
  with opt_frac_length [OF f] opt_exp_length [OF x] show ?thesis by simp
qed

lemma tl_length: "cs \<noteq> [] \<Longrightarrow> length (tl cs) < length cs"
  by (cases cs) auto

lemma skip_tl_length: "cs \<noteq> [] \<Longrightarrow> length (skip_ws (tl cs)) < length cs"
  using skip_ws_length [of "tl cs"] by (cases cs) auto

lemma scan_consumes:
  "scan_once f d n cs = Inr (v, rest) \<Longrightarrow> length rest < length cs"
  "parse_pairs f d n ps cs = Inr (v, rest) \<Longrightarrow> length rest < length cs"
  "parse_items f d n its cs = Inr (v, rest) \<Longrightarrow> length rest < length cs"
proof (induction f d n cs and f d n ps cs and f d n its cs
       arbitrary: v rest and v rest and v rest
       rule: scan_once_parse_pairs_parse_items.induct)
  case (1 depth n cs)
  then show ?case by simp
next
  case (2 fuel depth n)
  then show ?case by simp
next
  case (3 fuel depth n c cs)
  note ws = skip_ws_length [of cs]
  show ?case
  proof (cases "c = CHR 0x22")
    case True
    with "3.prems" show ?thesis
      by (auto split: sum.splits dest: scanstring_consumes)
  next
    case nq: False
    show ?thesis
    proof (cases "c = CHR ''{''")
      case ob: True
      show ?thesis
      proof (cases "depth = 0")
        case True
        with nq ob "3.prems" show ?thesis by simp
      next
        case dz: False
        with nq ob "3.prems" "3.IH"(1) [OF nq ob dz refl] ws tl_length [of "skip_ws cs"]
        show ?thesis
          by (auto simp: Let_def split: if_splits)
      qed
    next
      case no: False
      show ?thesis
      proof (cases "c = CHR ''[''")
        case ob: True
        show ?thesis
        proof (cases "depth = 0")
          case True
          with nq no ob "3.prems" show ?thesis by simp
        next
          case dz: False
          with nq no ob "3.prems" "3.IH"(2) [OF nq no ob dz refl] ws
            tl_length [of "skip_ws cs"]
          show ?thesis
            by (auto simp: Let_def split: if_splits)
        qed
      next
        case na: False
        with nq no "3.prems" show ?thesis
          by (auto split: if_splits option.splits dest: match_number_consumes)
      qed
    qed
  qed
next
  case (4 depth n pairs cs)
  then show ?case by simp
next
  case (5 fuel depth n pairs cs)
  from "5.prems" obtain key r1 where s: "scanstring n (n - length cs - 1) [] cs = Inr (key, r1)"
    by (auto split: sum.splits)
  define r2 where "r2 = skip_ws r1"
  from "5.prems" s have c: "\<not> (r2 = [] \<or> hd r2 \<noteq> CHR '':'')"
    by (auto simp: Let_def r2_def split: if_splits)
  from "5.prems" s c obtain val r3 where v: "scan_once fuel depth n (skip_ws (tl r2)) = Inr (val, r3)"
    by (auto simp: Let_def r2_def split: sum.splits)
  define r4 where "r4 = skip_ws r3"
  have l1: "length r1 < length cs" using s by (rule scanstring_consumes)
  have l2: "length r2 \<le> length r1" by (simp add: r2_def skip_ws_length)
  have l3: "length r3 < length (skip_ws (tl r2))"
    by (rule "5.IH"(1) [OF s refl r2_def c v])
  have l3': "length (skip_ws (tl r2)) < length r2"
    using c by (intro skip_tl_length) simp
  have l4: "length r4 \<le> length r3" by (simp add: r4_def skip_ws_length)
  show ?case
  proof (cases "r4 \<noteq> [] \<and> hd r4 = CHR ''}''")
    case True
    with "5.prems" s c v have "rest = tl r4"
      by (auto simp: Let_def r2_def r4_def)
    with l1 l2 l3 l3' l4 show ?thesis by simp
  next
    case d1: False
    with "5.prems" s c v have d2: "\<not> (r4 = [] \<or> hd r4 \<noteq> CHR '','')"
      by (auto simp: Let_def r2_def r4_def split: if_splits)
    define r5 where "r5 = skip_ws (tl r4)"
    from "5.prems" s c v d1 d2 have q: "r5 \<noteq> [] \<and> hd r5 = CHR 0x22"
      and rec: "parse_pairs fuel depth n (dict_set pairs key val) (tl r5) = Inr (v, rest)"
      by (auto simp: Let_def r2_def r4_def r5_def split: if_splits)
    have "length rest < length (tl r5)"
      by (rule "5.IH"(2) [OF s refl r2_def c v refl refl r4_def d1 d2 r5_def q rec])
    moreover have "length r5 \<le> length r4"
      using skip_ws_length [of "tl r4"] by (simp add: r5_def)
    ultimately show ?thesis using l1 l2 l3 l3' l4 by simp
  qed
next
  case (6 depth n items cs)
  then show ?case by simp
next
  case (7 fuel depth n items cs)
  from "7.prems" obtain val r1 where v: "scan_once fuel depth n cs = Inr (val, r1)"
    by (auto split: sum.splits)
  have l1: "length r1 < length cs" by (rule "7.IH"(1) [OF v])
  define r2 where "r2 = skip_ws r1"
  have l2: "length r2 \<le> length r1" by (simp add: r2_def skip_ws_length)
  show ?case
  proof (cases "r2 \<noteq> [] \<and> hd r2 = CHR '']''")
    case True
    with "7.prems" v have "rest = tl r2" by (auto simp: Let_def r2_def)
    with l1 l2 show ?thesis by simp
  next
    case d1: False
    with "7.prems" v have d2: "\<not> (r2 = [] \<or> hd r2 \<noteq> CHR '','')"
      and rec: "parse_items fuel depth n (items @ [val]) (skip_ws (tl r2)) = Inr (v, rest)"
      by (auto simp: Let_def r2_def split: if_splits)
    have "length rest < length (skip_ws (tl r2))"
      by (rule "7.IH"(2) [OF v refl r2_def d1 d2 rec])
    moreover have "length (skip_ws (tl r2)) \<le> length r2"
      using skip_ws_length [of "tl r2"] by simp
    ultimately show ?thesis using l1 l2 by simp
  qed
qed

lemma match_number_fuel: "match_number cs \<noteq> Some (Inl Fuel)"
  by (auto simp: match_number_def Let_def split: option.splits prod.splits)

lemma scanstring_fuel: "scanstring n b acc cs \<noteq> Inl Fuel"
proof (induction n b acc cs rule: scanstring.induct)
  case (1 n b acc)
  show ?case by simp
next
  case (2 n b acc c cs)
  then show ?case
    by (auto simp: Let_def split: list.splits option.splits if_splits)
qed

lemma scan_fuel:
  "2 * length cs + 1 \<le> f \<Longrightarrow> scan_once f d n cs \<noteq> Inl Fuel"
  "2 * length cs + 1 \<le> f \<Longrightarrow> parse_pairs f d n ps cs \<noteq> Inl Fuel"
  "2 * length cs + 2 \<le> f \<Longrightarrow> parse_items f d n its cs \<noteq> Inl Fuel"
proof (induction f d n cs and f d n ps cs and f d n its cs
       rule: scan_once_parse_pairs_parse_items.induct)
  case (1 depth n cs)
  then show ?case by simp
next
  case (2 fuel depth n)
  then show ?case by simp
next
  case (3 fuel depth n c cs)
  note ws = skip_ws_length [of cs]
  show ?case
  proof (cases "c = CHR 0x22")
    case True
    then show ?thesis
      using scanstring_fuel [of n "n - length cs - 1" "[]" cs]
      by (auto split: sum.splits)
  next
    case nq: False
    show ?thesis
    proof (cases "c = CHR ''{''")
      case ob: True
      have fu: "2 * length (tl (skip_ws cs)) + 1 \<le> fuel"
        using "3.prems" ws by (cases "skip_ws cs") auto
      show ?thesis
      proof (cases "depth = 0")
        case True
        with nq ob show ?thesis by simp
      next
        case dz: False
        with fu nq ob "3.IH"(1) [OF nq ob dz refl]
        show ?thesis
          by (auto simp: Let_def split: if_splits)
      qed
    next
      case no: False
      show ?thesis
      proof (cases "c = CHR ''[''")
        case ob: True
        have fu: "2 * length (skip_ws cs) + 2 \<le> fuel"
          using "3.prems" ws by auto
        show ?thesis
        proof (cases "depth = 0")
          case True
          with nq no ob show ?thesis by simp
        next
          case dz: False
          with fu nq no ob "3.IH"(2) [OF nq no ob dz refl]
          show ?thesis
            by (auto simp: Let_def split: if_splits)
        qed
      next
        case na: False
        have "match_number (c # cs) \<noteq> Some (Inl Fuel)"
          by (rule match_number_fuel)
        with nq no na show ?thesis
          by (auto split: if_splits option.splits)
      qed
    qed
  qed
next
  case (4 depth n pairs cs)
  then show ?case by simp
next
  case (5 fuel depth n pairs cs)
  show ?case
  proof (cases "scanstring n (n - length cs - 1) [] cs")
    case (Inl e)
    with scanstring_fuel [of n "n - length cs - 1" "[]" cs] show ?thesis by auto
  next
    case (Inr kr)
    obtain key r1 where s: "scanstring n (n - length cs - 1) [] cs = Inr (key, r1)"
      using Inr by (cases kr) auto
    define r2 where "r2 = skip_ws r1"
    have l1: "length r1 < length cs" using s by (rule scanstring_consumes)
    have l2: "length r2 \<le> length r1" by (simp add: r2_def skip_ws_length)
    show ?thesis
    proof (cases "r2 = [] \<or> hd r2 \<noteq> CHR '':''")
      case True
      with s show ?thesis by (auto simp: Let_def r2_def)
    next
      case c: False
      have l3': "length (skip_ws (tl r2)) < length r2"
        using c by (intro skip_tl_length) simp
      have fu: "2 * length (skip_ws (tl r2)) + 1 \<le> fuel"
        using "5.prems" l1 l2 l3' by simp
      have nd: "scan_once fuel depth n (skip_ws (tl r2)) \<noteq> Inl Fuel"
        by (rule "5.IH"(1) [OF s refl r2_def c fu])
      show ?thesis
      proof (cases "scan_once fuel depth n (skip_ws (tl r2))")
        case (Inl e)
        with nd s c show ?thesis by (auto simp: Let_def r2_def)
      next
        case (Inr vr)
        obtain val r3 where v: "scan_once fuel depth n (skip_ws (tl r2)) = Inr (val, r3)"
          using Inr by (cases vr) auto
        define r4 where "r4 = skip_ws r3"
        define r5 where "r5 = skip_ws (tl r4)"
        have l3: "length r3 < length (skip_ws (tl r2))" using v by (rule scan_consumes(1))
        have l4: "length r4 \<le> length r3" by (simp add: r4_def skip_ws_length)
        show ?thesis
        proof (cases "(r4 \<noteq> [] \<and> hd r4 = CHR ''}'') \<or> (r4 = [] \<or> hd r4 \<noteq> CHR '','')
                      \<or> \<not> (r5 \<noteq> [] \<and> hd r5 = CHR 0x22)")
          case True
          with s c v show ?thesis
            by (auto simp: Let_def r2_def r4_def r5_def)
        next
          case False
          then have d1: "\<not> (r4 \<noteq> [] \<and> hd r4 = CHR ''}'')"
            and d2: "\<not> (r4 = [] \<or> hd r4 \<noteq> CHR '','')"
            and q: "r5 \<noteq> [] \<and> hd r5 = CHR 0x22" by blast+
          have "length r5 \<le> length r4"
            using skip_ws_length [of "tl r4"] by (simp add: r5_def)
          then have fu2: "2 * length (tl r5) + 1 \<le> fuel"
            using "5.prems" l1 l2 l3 l3' l4 by simp
          have "parse_pairs fuel depth n (dict_set pairs key val) (tl r5) \<noteq> Inl Fuel"
            by (rule "5.IH"(2) [OF s refl r2_def c v refl refl r4_def d1 d2 r5_def q fu2])
          with s c v d1 d2 q show ?thesis
            by (auto simp: Let_def r2_def r4_def r5_def)
        qed
      qed
    qed
  qed
next
  case (6 depth n items cs)
  then show ?case by simp
next
  case (7 fuel depth n items cs)
  have fu: "2 * length cs + 1 \<le> fuel" using "7.prems" by simp
  have nd: "scan_once fuel depth n cs \<noteq> Inl Fuel" by (rule "7.IH"(1) [OF fu])
  show ?case
  proof (cases "scan_once fuel depth n cs")
    case (Inl e)
    with nd show ?thesis by auto
  next
    case (Inr vr)
    obtain val r1 where v: "scan_once fuel depth n cs = Inr (val, r1)"
      using Inr by (cases vr) auto
    define r2 where "r2 = skip_ws r1"
    have l1: "length r1 < length cs" using v by (rule scan_consumes(1))
    have l2: "length r2 \<le> length r1" by (simp add: r2_def skip_ws_length)
    show ?thesis
    proof (cases "(r2 \<noteq> [] \<and> hd r2 = CHR '']'') \<or> (r2 = [] \<or> hd r2 \<noteq> CHR '','')")
      case True
      with v show ?thesis by (auto simp: Let_def r2_def)
    next
      case False
      then have d1: "\<not> (r2 \<noteq> [] \<and> hd r2 = CHR '']'')"
        and d2: "\<not> (r2 = [] \<or> hd r2 \<noteq> CHR '','')" by blast+
      have "length (skip_ws (tl r2)) \<le> length r2"
        using skip_ws_length [of "tl r2"] by simp
      then have fu2: "2 * length (skip_ws (tl r2)) + 2 \<le> fuel"
        using "7.prems" l1 l2 by simp
      have "parse_items fuel depth n (items @ [val]) (skip_ws (tl r2)) \<noteq> Inl Fuel"
        by (rule "7.IH"(2) [OF v refl r2_def d1 d2 fu2])
      with v d1 d2 show ?thesis by (auto simp: Let_def r2_def)
    qed
  qed
qed

lemma json_loads_class:
  assumes "json_loads depth s = Inl e"
  shows "exn_class e \<in> {''JSONDecodeError'', ''RecursionError'', ''ValueError''}"
  using assms
  by (auto simp: json_loads_def Let_def split: sum.splits jerr.splits if_splits)

lemma json_loads_fuel:
  "scan_once (2 * length s + 2) depth (length s) (skip_ws s) \<noteq> Inl Fuel"
proof -
  have "2 * length (skip_ws s) + 1 \<le> 2 * length s + 2"
    using skip_ws_length [of s] by simp
  then show ?thesis by (rule scan_fuel(1))
qed

section \<open>Theorems: the chat-history buffer\<close>

lemma send_message_keeps_cap:
  "history_capped st \<Longrightarrow> history_capped (snd (send_message agent ui ns st))"
  by (auto simp: history_capped_def send_message_def Let_def split: sum.splits if_splits)

lemma start_bot_keeps_cap: "history_capped st \<Longrightarrow> history_capped (start_bot a b st)"
  by (auto simp: history_capped_def start_bot_def)

lemma reachable_capped: "reachable st \<Longrightarrow> history_capped st"
proof (induction rule: reachable.induct)
  case reach_init
  show ?case by (simp add: history_capped_def initial_chat_state_def)
next
  case (reach_send st agent user_input namespace)
  from reach_send.IH show ?case by (rule send_message_keeps_cap)
next
  case (reach_start st get_bot_ok start_ok)
  from reach_start.IH show ?case by (rule start_bot_keeps_cap)
next
  case (reach_info st)
  from reach_info.IH show ?case by (simp add: history_capped_def)
qed

text \<open>
  Claim C9. In every reachable server state, after a \<open>send_message\<close> call every
  namespace's history holds at most 10 entries; and when the call reaches the agent and
  the agent returns, the namespace's new history is the last 10 entries of the old
  history followed by the user entry and the assistant entry, so the entries dropped
  are the oldest ones.
\<close>

theorem send_message_history_cap:
  assumes "reachable st"
  shows "history_capped (snd (send_message agent user_input namespace st)) \<and>
         (\<not> invalid_text (PStr user_input) \<longrightarrow> \<not> invalid_text (PStr namespace) \<longrightarrow>
          (\<forall>response. agent user_input namespace (history_of st namespace) = Inr response \<longrightarrow>
             (let appended = history_of st namespace @
                    [history_entry ''user'' (PStr user_input),
                     history_entry ''assistant'' (get_default response ''answer'' (PStr []))]
              in chat_history (snd (send_message agent user_input namespace st)) namespace
                   = Some (drop (length appended - 10) appended))))"
proof -
  from assms have "history_capped st" by (rule reachable_capped)
  then have "history_capped (snd (send_message agent user_input namespace st))"
    by (rule send_message_keeps_cap)
  moreover have "\<not> invalid_text (PStr user_input) \<longrightarrow> \<not> invalid_text (PStr namespace) \<longrightarrow>
          (\<forall>response. agent user_input namespace (history_of st namespace) = Inr response \<longrightarrow>
             (let appended = history_of st namespace @
                    [history_entry ''user'' (PStr user_input),
                     history_entry ''assistant'' (get_default response ''answer'' (PStr []))]
              in chat_history (snd (send_message agent user_input namespace st)) namespace
                   = Some (drop (length appended - 10) appended)))"
    by (auto simp: send_message_def history_of_def Let_def)
  ultimately show ?thesis by blast
qed

lemma five_turns_reachable: "reachable five_turns"
  unfolding five_turns_def by (intro reach_send reach_init)

theorem send_message_history_cap_witness:
  "reachable five_turns \<and>
   history_capped (snd (send_message echo_agent ''f'' ''kurs'' five_turns)) \<and>
   chat_history (snd (send_message echo_agent ''f'' ''kurs'' five_turns)) ''kurs'' =
     Some [history_entry ''user'' (PStr ''b''), history_entry ''assistant'' (PStr ''re: b''),
           history_entry ''user'' (PStr ''c''), history_entry ''assistant'' (PStr ''re: c''),
           history_entry ''user'' (PStr ''d''), history_entry ''assistant'' (PStr ''re: d''),
           history_entry ''user'' (PStr ''e''), history_entry ''assistant'' (PStr ''re: e''),
           history_entry ''user'' (PStr ''f''), history_entry ''assistant'' (PStr ''re: f'')]"
proof -
  have valid: "\<not> invalid_text (PStr ''a'')" "\<not> invalid_text (PStr ''b'')"
    "\<not> invalid_text (PStr ''c'')" "\<not> invalid_text (PStr ''d'')" "\<not> invalid_text (PStr ''e'')"
    "\<not> invalid_text (PStr ''f'')" "\<not> invalid_text (PStr ''kurs'')"
    by (simp_all add: invalid_text_def strip_def isspace_def)
  have hist: "history_of five_turns ''kurs'' =
     [history_entry ''user'' (PStr ''a''), history_entry ''assistant'' (PStr ''re: a''),
      history_entry ''user'' (PStr ''b''), history_entry ''assistant'' (PStr ''re: b''),
      history_entry ''user'' (PStr ''c''), history_entry ''assistant'' (PStr ''re: c''),
      history_entry ''user'' (PStr ''d''), history_entry ''assistant'' (PStr ''re: d''),
      history_entry ''user'' (PStr ''e''), history_entry ''assistant'' (PStr ''re: e'')]"
    using valid
    by (simp add: history_of_def five_turns_def send_message_def echo_agent_def
        initial_chat_state_def get_default_def Let_def)
  have run: "echo_agent ''f'' ''kurs'' (history_of five_turns ''kurs'')
               = Inr [(''answer'', PStr ''re: f'')]"
    by (simp add: echo_agent_def)
  from send_message_history_cap [OF five_turns_reachable, of echo_agent "''f''" "''kurs''"]
  show ?thesis
    using valid run five_turns_reachable by (simp add: hist get_default_def Let_def)
qed

section \<open>Theorems: document deletion\<close>

text \<open>
  Claim C8. Whenever the vector manager returns a result, \<open>delete_document\<close> returns a
  dict whose \<open>vector_result\<close> is that result and whose \<open>firebase_result\<close> is the
  metadata store's own result (or the fixed note when Firebase is not configured); its
  \<open>status\<close> is \<open>success\<close> exactly when the vector result's status is \<open>success\<close>, and
  \<open>error\<close> otherwise, whatever the metadata store answered.
\<close>

theorem delete_document_status:
  "\<exists>d. delete_document firebase_available (Inr vector_result) db_get db_delete namespace fileID
          = Inr d
     \<and> (py_get d ''status'' = PStr ''success'')
          = (py_get vector_result ''status'' = PStr ''success'')
     \<and> py_get d ''status''
          = PStr (if py_get vector_result ''status'' = PStr ''success''
                  then ''success'' else ''error'')
     \<and> py_get d ''vector_result'' = PDict vector_result
     \<and> py_get d ''firebase_result'' =
          PDict (if firebase_available
                 then delete_document_metadata db_get db_delete namespace fileID
                 else [(''status'', PStr ''success''),
                       (''message'', PStr ''Firebase not available'')])"
  by (simp add: delete_document_def Let_def py_get_def)

section \<open>Theorems: the namespace summary\<close>

lemma document_info_fields: "entry_has_fields (PDict (document_info doc_id dd))"
  by (simp add: entry_has_fields_def document_info_def has_key_def)

lemma collect_documents_fields: "list_all entry_has_fields (collect_documents nd)"
  by (induction nd rule: collect_documents.induct)
     (auto simp: document_info_fields split: pyval.splits)

text \<open>
  Claim C10. \<open>get_namespace_summary\<close> always returns a dict (it never raises). When the
  dict's status is \<open>success\<close>, its \<open>document_count\<close> is the length of its \<open>documents\<close>
  list and every entry of that list is a dict with the keys id, name, summary,
  chunk_count and status. When the body of the function raises, the dict's status is
  \<open>error\<close>.
\<close>

theorem get_namespace_summary_shape:
  "\<exists>d. get_namespace_summary firebase_available db_get namespace = Inr d \<and>
     (py_get d ''status'' = PStr ''success'' \<longrightarrow>
        (\<exists>documents. py_get d ''documents'' = PList documents \<and>
            py_get d ''document_count'' = PInt (int (length documents)) \<and>
            list_all entry_has_fields documents)) \<and>
     (\<forall>e. namespace_summary_body firebase_available db_get namespace = Inl e \<longrightarrow>
        py_get d ''status'' = PStr ''error'')"
  by (auto simp: get_namespace_summary_def try_except_def namespace_summary_body_def Let_def
        py_get_def collect_documents_fields split: sum.splits pyval.splits if_splits)

theorem get_namespace_summary_shape_witness:
  "(\<exists>d documents. get_namespace_summary True sample_store ''kurs'' = Inr d \<and>
       py_get d ''status'' = PStr ''success'' \<and>
       py_get d ''documents'' = PList documents \<and>
       py_get d ''document_count'' = PInt 1 \<and> length documents = 1 \<and>
       list_all entry_has_fields documents) \<and>
   (\<exists>d e. namespace_summary_body True list_store ''kurs'' = Inl e \<and>
       get_namespace_summary True list_store ''kurs'' = Inr d \<and>
       py_get d ''status'' = PStr ''error'')"
proof -
  have s1: "\<exists>d. get_namespace_summary True sample_store ''kurs'' = Inr d \<and> py_get d ''status'' = PStr ''success''
      \<and> py_get d ''document_count'' = PInt 1"
    by (simp add: get_namespace_summary_def try_except_def namespace_summary_body_def Let_def
        get_namespace_data_def get_project_info_def sample_store_def py_get_def has_key_def)
  have s2: "namespace_summary_body True list_store ''kurs'' = Inl (Exn ''AttributeError'' ([CHR 0x27] @ ''list'' @ [CHR 0x27]
                                @ '' object has no attribute '' @ [CHR 0x27] @ ''items''
                                @ [CHR 0x27]))"
    by (simp add: namespace_summary_body_def Let_def
        get_namespace_data_def get_project_info_def list_store_def py_get_def)
  from get_namespace_summary_shape [of True sample_store "''kurs''"] s1
  have a: "\<exists>d documents. get_namespace_summary True sample_store ''kurs'' = Inr d \<and>
       py_get d ''status'' = PStr ''success'' \<and>
       py_get d ''documents'' = PList documents \<and>
       py_get d ''document_count'' = PInt 1 \<and> length documents = 1 \<and>
       list_all entry_has_fields documents"
    by auto
  from get_namespace_summary_shape [of True list_store "''kurs''"] s2
  have b: "\<exists>d e. namespace_summary_body True list_store ''kurs'' = Inl e \<and>
       get_namespace_summary True list_store ''kurs'' = Inr d \<and>
       py_get d ''status'' = PStr ''error''"
    by auto
  from a b show ?thesis by blast
qed

section \<open>Theorems: \<open>answer_question\<close>\<close>

lemma invalid_text_iff: "invalid_text x \<longleftrightarrow> (\<forall>s. x = PStr s \<longrightarrow> strip s = [])"
  by (cases x) (auto simp: invalid_text_def strip_def)

lemma keys_default_answer: "keys (default_answer a i) = answer_fields"
  by (simp add: keys_def default_answer_def answer_fields_def)

lemma keys_fallback_answer: "keys (fallback_answer r h i) = answer_fields"
  by (simp add: keys_def fallback_answer_def answer_fields_def)

lemma keys_structured_response:
  "structured_response k r h p = Inr d \<Longrightarrow> keys d = answer_fields"
  by (auto simp: structured_response_def Let_def keys_def answer_fields_def split: sum.splits)

lemma parse_agent_output_cases:
  "(\<exists>i. parse_agent_output k r h = fallback_answer r h i)
   \<or> (\<exists>p. structured_response k r h p = Inr (parse_agent_output k r h))"
  by (auto simp: parse_agent_output_def parse_json_response_def Let_def
           split: sum.splits pyval.splits if_splits)

lemma keys_parse_agent_output: "keys (parse_agent_output k r h) = answer_fields"
  using parse_agent_output_cases [of k r h]
  by (auto simp: keys_fallback_answer dest: keys_structured_response)

text \<open>
  Claim C1. For every question, namespace and chat history, and whatever the
  collaborators do (raise, or return any text), \<open>answer_question\<close> returns a dict and
  does not raise; the dict has exactly the seven fields of a Structured Answer; and it is
  the dict of a parsed response, or one of the two default dicts: the fallback (raw text
  as answer, empty lists, confidence 0.7) or the error dict (empty lists, confidence 0.0).
\<close>

theorem answer_question_total:
  "\<exists>d. snd (answer_question env question namespace history) = Inr d
       \<and> keys d = answer_fields
       \<and> ((\<exists>a i. d = default_answer a i)
          \<or> (\<exists>r h i. d = fallback_answer r h i)
          \<or> (\<exists>k r h p. structured_response k r h p = Inr d))"
proof (cases "invalid_text question \<or> invalid_text namespace")
  case True
  then show ?thesis
    by (auto simp: answer_question_def keys_default_answer)
next
  case False
  obtain calls outcome
    where b: "answer_body env (py_str question) (py_str namespace) history = (calls, outcome)"
    by (cases "answer_body env (py_str question) (py_str namespace) history") auto
  show ?thesis
  proof (cases outcome)
    case (Inl e)
    with False b show ?thesis
      by (auto simp: answer_question_def try_except_def keys_default_answer)
  next
    case (Inr d)
    with b obtain k r h where d: "d = parse_agent_output k r h"
      by (auto simp: answer_body_def split: option.splits sum.splits prod.splits)
    from parse_agent_output_cases [of k r h] d
    have "(\<exists>r h i. d = fallback_answer r h i) \<or> (\<exists>k r h p. structured_response k r h p = Inr d)"
      by metis
    with False b Inr d show ?thesis
      by (auto simp: answer_question_def try_except_def keys_parse_agent_output)
  qed
qed

text \<open>
  Claim C5. When the question is not a text or is empty or blank, or the namespace is,
  \<open>answer_question\<close> returns, without a call to any collaborator, the error dict: the
  answer names the invalid question or namespace, the confidence is 0.0 and
  \<open>document_ids\<close>, \<open>sources\<close> and \<open>pages\<close> are empty.
\<close>

theorem answer_question_rejects_invalid:
  assumes "invalid_text question \<or> invalid_text namespace"
  shows "\<exists>a i. answer_question env question namespace history
                  = ([], Inr (default_answer a i))
           \<and> (a = ''Ung'' @ [CHR 0xFC] @ ''ltige Frage''
              \<or> a = ''Ung'' @ [CHR 0xFC] @ ''ltiger Namespace'')
           \<and> py_get (default_answer a i) ''confidence_score'' = PFloat 0
           \<and> py_get (default_answer a i) ''document_ids'' = PList []
           \<and> py_get (default_answer a i) ''sources'' = PList []
           \<and> py_get (default_answer a i) ''pages'' = PList []"
  using assms by (auto simp: answer_question_def default_answer_def py_get_def)

theorem answer_question_rejects_invalid_witness:
  "invalid_text (PStr ''  '') \<and> invalid_text (PInt 4) \<and> invalid_text (PStr [])
   \<and> \<not> invalid_text (PStr ''Frage?'')
   \<and> fst (answer_question (agent_says ''{}'') (PStr ''  '') (PStr ''kurs'') PNone) = []
   \<and> fst (answer_question (agent_says ''{}'') (PInt 4) (PStr ''kurs'') PNone) = []
   \<and> fst (answer_question (agent_says ''{}'') (PStr ''Frage?'') (PStr []) PNone) = []
   \<and> snd (answer_question (agent_says ''{}'') (PStr ''Frage?'') (PStr []) PNone)
       = Inr (default_answer (''Ung'' @ [CHR 0xFC] @ ''ltiger Namespace'')
                (''Leerer oder ung'' @ [CHR 0xFC] @ ''ltiger Namespace''))"
proof -
  have inv: "invalid_text (PStr ''  '')" "invalid_text (PInt 4)" "invalid_text (PStr [])"
    and ok: "\<not> invalid_text (PStr ''Frage?'')"
    by (simp_all add: invalid_text_def strip_def isspace_def)
  from answer_question_rejects_invalid [of "PStr ''  ''" "PStr ''kurs''" "agent_says ''{}''" PNone]
       answer_question_rejects_invalid [of "PInt 4" "PStr ''kurs''" "agent_says ''{}''" PNone]
       answer_question_rejects_invalid [of "PStr ''Frage?''" "PStr []" "agent_says ''{}''" PNone]
       inv ok
  show ?thesis by (auto simp: answer_question_def)
qed

lemma re_search_match: "re_search p s = Some found \<Longrightarrow> re_match p found"
  by (induction s) (auto split: if_splits)

lemma re_match_append: "re_match (pre @ grp) s \<Longrightarrow> re_match grp (drop (length pre) s)"
  by (induction pre s rule: re_match.induct) auto

lemma re_match_pages_group:
  "re_match pages_group xs \<Longrightarrow> \<exists>c rest. xs = CHR 0x5C # c # rest"
  by (cases xs; cases "tl xs") (auto simp: pages_group_def)

lemma search_group_pages:
  assumes "search_group pre pages_group s = Some g"
  shows "\<exists>cs. g = CHR 0x5C # cs"
proof -
  from assms obtain found where f: "re_search (pre @ pages_group) s = Some found"
    and g: "g = take (length pages_group) (drop (length pre) found)"
    by (auto simp: search_group_def split: option.splits)
  from f have "re_match (pre @ pages_group) found" by (rule re_search_match)
  then have "re_match pages_group (drop (length pre) found)" by (rule re_match_append)
  then obtain c rest where "drop (length pre) found = CHR 0x5C # c # rest"
    using re_match_pages_group by blast
  with g show ?thesis by (simp add: pages_group_def)
qed

text \<open>No JSON text starts with a backslash, so the decoder rejects every group.\<close>

lemma json_loads_backslash: "\<exists>e. json_loads k (CHR 0x5C # cs) = Inl e"
  by (simp add: json_loads_def skip_ws_def json_ws_def match_number_def int_part_def
        is_digit_def Let_def)

lemma load_pages_backslash: "load_pages k (CHR 0x5C # cs) = PList []"
  using json_loads_backslash [of k cs] by (auto simp: load_pages_def)

lemma extract_pages_empty: "extract_pages k result_str = PList []"
  by (auto simp: extract_pages_def load_pages_backslash split: option.splits
           dest!: search_group_pages)

lemma structured_response_pages:
  "structured_response k r h p = Inr d \<Longrightarrow> py_get d ''pages'' = PList []"
  by (auto simp: structured_response_def Let_def py_get_def extract_pages_empty
           split: sum.splits)

lemma parse_agent_output_pages: "py_get (parse_agent_output k r h) ''pages'' = PList []"
  using parse_agent_output_cases [of k r h]
  by (auto simp: fallback_answer_def py_get_def
           dest: structured_response_pages [unfolded py_get_def])

lemma answer_question_pages:
  "\<exists>d. snd (answer_question env question namespace history) = Inr d
       \<and> py_get d ''pages'' = PList []"
proof (cases "invalid_text question \<or> invalid_text namespace")
  case True
  then show ?thesis
    by (auto simp: answer_question_def default_answer_def py_get_def)
next
  case False
  obtain calls outcome
    where b: "answer_body env (py_str question) (py_str namespace) history = (calls, outcome)"
    by (cases "answer_body env (py_str question) (py_str namespace) history") auto
  show ?thesis
  proof (cases outcome)
    case (Inl e)
    with False b show ?thesis
      by (auto simp: answer_question_def try_except_def default_answer_def py_get_def)
  next
    case (Inr d)
    with b obtain k r h where d: "d = parse_agent_output k r h"
      by (auto simp: answer_body_def split: option.splits sum.splits prod.splits)
    with False b Inr show ?thesis
      by (auto simp: answer_question_def try_except_def parse_agent_output_pages)
  qed
qed

text \<open>
  Claim C2 (the code departs from it). The agent's text \<open>raw_with_marker\<close> is a JSON
  object followed by \<open>[SYSTEM_INFO] FOUND_PAGES: [4]\<close>. The object parses, the marker is
  present and its list is well formed, and yet the answer's \<open>pages\<close> is empty: neither
  pattern can match the marker, since both require backslashes in the text.
\<close>

theorem marker_pages_not_recovered:
  "answer_question (agent_says raw_with_marker) (PStr ''Frage?'') (PStr ''kurs'') PNone =
     ([SetupAgent ''kurs'', CrewKickoff ''Frage?''],
      Inr [(''answer'', PStr ''A''), (''document_ids'', PList []), (''sources'', PList []),
           (''confidence_score'', PFloat 0.8), (''context_used'', PBool False),
           (''additional_info'', PNone), (''pages'', PList [])])
   \<and> search_group system_info_found_pages pages_group raw_with_marker = None
   \<and> search_group found_pages pages_group raw_with_marker = None"
  by code_simp

text \<open>
  Claim C3 (the code departs from it). The agent's text \<open>Hallo {\<close> has an opening brace
  and no closing brace. The answer is the fallback dict, raw text and confidence 0.7,
  but its \<open>additional_info\<close> is the parse-failure diagnostic with the decoder's detail
  and not the diagnostic for a missing JSON structure: \<open>rfind\<close> gives -1, one is added,
  and the test against -1 lets the empty slice through to the decoder.
\<close>

theorem missing_closing_brace_diagnostic:
  "snd (answer_question (agent_says raw_open_brace) (PStr ''Frage?'') (PStr ''kurs'') PNone) =
     Inr (fallback_answer raw_open_brace False
            ''JSON-Parsing fehlgeschlagen: Expecting value: line 1 column 1 (char 0)'')
   \<and> ''JSON-Parsing fehlgeschlagen: Expecting value: line 1 column 1 (char 0)'' \<noteq> no_json_found
   \<and> find_str raw_open_brace (CHR ''{'') = 6
   \<and> rfind_str raw_open_brace (CHR ''}'') + 1 = 0"
  by code_simp

section \<open>Theorems: \<open>pdf_search_tool\<close>\<close>

text \<open>
  Claim C6. Let the query be valid, the allow-list parsed from \<open>document_ids\<close> be
  non-empty, and the retriever return a non-empty list none of whose fragments passes
  the filter (its metadata is a dict and its document id is in the allow-list). Then the
  tool returns the message KEINE DOKUMENTE IN GEFILTERTEN IDs with the allow-list, and
  this differs from what it returns, for the same query and allow-list, when the
  retriever yields no fragment at all (KEINE DOKUMENTE GEFUNDEN).
\<close>

theorem filter_without_match_is_distinct:
  assumes "\<not> invalid_text query"
    and "target_doc_ids document_ids \<noteq> []"
    and "retrieve env (py_str query) = Inr (Docs docs)"
    and "docs \<noteq> []"
    and "\<forall>doc \<in> set docs. \<not> passes_filter (target_doc_ids document_ids) doc"
    and "retrieve env0 (py_str query) = Inr (Docs [])"
  shows "pdf_search_tool env query document_ids
           = no_match_in_filter (target_doc_ids document_ids)
       \<and> pdf_search_tool env0 query document_ids = no_documents_found
       \<and> pdf_search_tool env query document_ids \<noteq> pdf_search_tool env0 query document_ids"
proof -
  from assms(5) have none: "filter (passes_filter (target_doc_ids document_ids)) docs = []"
    by (simp add: filter_empty_conv)
  from assms(1-4) none
  have a: "pdf_search_tool env query document_ids
             = no_match_in_filter (target_doc_ids document_ids)"
    by (simp add: pdf_search_tool_def search_def render_def Let_def)
  from assms(1,6)
  have b: "pdf_search_tool env0 query document_ids = no_documents_found"
    by (simp add: pdf_search_tool_def search_def render_def Let_def)
  have "no_match_in_filter (target_doc_ids document_ids) \<noteq> no_documents_found"
    by (simp add: no_match_in_filter_def no_documents_found_def)
  with a b show ?thesis by simp
qed

theorem filter_without_match_is_distinct_witness:
  "target_doc_ids ''X, Y'' = [''X'', ''Y'']
   \<and> \<not> passes_filter [''X'', ''Y''] blank_fragment
   \<and> \<not> passes_filter [''X'', ''Y''] text_fragment
   \<and> pdf_search_tool two_fragments (PStr ''Frage'') ''X, Y'' = no_match_in_filter [''X'', ''Y'']
   \<and> pdf_search_tool no_fragments (PStr ''Frage'') ''X, Y'' = no_documents_found
   \<and> pdf_search_tool two_fragments (PStr ''Frage'') ''X, Y''
       \<noteq> pdf_search_tool no_fragments (PStr ''Frage'') ''X, Y''"
proof -
  have t: "target_doc_ids ''X, Y'' = [''X'', ''Y'']"
    by (simp add: target_doc_ids_def strip_def isspace_def)
  have q: "\<not> invalid_text (PStr ''Frage'')"
    by (simp add: invalid_text_def strip_def isspace_def)
  have p: "\<not> passes_filter [''X'', ''Y''] blank_fragment"
          "\<not> passes_filter [''X'', ''Y''] text_fragment"
    by (simp_all add: passes_filter_def blank_fragment_def text_fragment_def filter_doc_id_def
          get_default_def)
  from filter_without_match_is_distinct
         [of "PStr ''Frage''" "''X, Y''" two_fragments "[blank_fragment, text_fragment]"
             no_fragments]
       t q p
  show ?thesis
    by (simp add: two_fragments_def no_fragments_def py_str_def no_match_in_filter_def
          no_documents_found_def)
qed

text \<open>
  Claim C4 (the code departs from it). The retriever returns a fragment of document A on
  page 7 whose content is blank, and a fragment of document B with no page. Only the
  second is written to the context, and FOUND_DOCUMENT_IDS lists only B; but
  FOUND_PAGES is [7], the page of the fragment that was skipped: the pages are collected
  before the test for blank content, the document id after it.
\<close>

theorem found_pages_include_skipped_fragment:
  "search two_fragments (PStr ''Frage'') [] =
     Context \<lparr>results = [''[DOC_ID: B]  --- DOK1 CHUNK 1b (HAUPTTREFFER) START ---''
                          @ [CHR 0x0A] @ ''Text'' @ [CHR 0x0A]
                          @ ''--- DOK1 CHUNK 1b (HAUPTTREFFER) END ---''],
              found_doc_ids = [PStr ''B''], used_pages = [7], chunk_counter = 2,
              doc_index_map = [(PStr ''B'', 0)], page_number_var = Some PNone\<rparr> []
   \<and> emitted_pages (search two_fragments (PStr ''Frage'') []) = [7]
   \<and> pdf_search_tool two_fragments (PStr ''Frage'') [] =
       ''[DOC_ID: B]  --- DOK1 CHUNK 1b (HAUPTTREFFER) START ---'' @ [CHR 0x0A] @ ''Text''
       @ [CHR 0x0A] @ ''--- DOK1 CHUNK 1b (HAUPTTREFFER) END ---'' @ [CHR 0x0A, CHR 0x0A]
       @ ''[SYSTEM_INFO] FOUND_DOCUMENT_IDS: ['' @ [CHR 0x27] @ ''B'' @ [CHR 0x27] @ '']''
       @ [CHR 0x0A] @ ''[SYSTEM_INFO] FOUND_PAGES: [7]''"
  by code_simp

text \<open>
  Claim C7. Whatever the agent run returns and whatever the search tool assembled, the
  page list of the answer of \<open>answer_question\<close> holds only page numbers of the tool's
  FOUND_PAGES line. (The page list of every answer is empty.)
\<close>

theorem answer_pages_within_found_pages:
  "\<exists>d ps. snd (answer_question aenv question namespace history) = Inr d
       \<and> py_get d ''pages'' = PList ps
       \<and> set ps \<subseteq> PInt ` set (emitted_pages (search senv query document_ids))"
  using answer_question_pages [of aenv question namespace history] by auto

section \<open>Theorems: the fallback answers in general\<close>

text \<open>Searching for a character: the index is \<open>- 1\<close> exactly when the character is absent.\<close>

lemma find_from_bounds:
  "c \<in> set s \<Longrightarrow> i \<le> find_from c s i \<and> find_from c s i < i + int (length s)"
proof (induction s arbitrary: i)
  case Nil
  then show ?case by simp
next
  case (Cons a s)
  show ?case
  proof (cases "a = c")
    case True
    then show ?thesis by simp
  next
    case False
    with Cons.prems have "c \<in> set s" by simp
    from Cons.IH [OF this, of "i + 1"] False show ?thesis by simp
  qed
qed

lemma find_from_absent: "c \<notin> set s \<Longrightarrow> find_from c s i = - 1"
  by (induction s arbitrary: i) auto

lemma find_absent_iff: "find_str s c = - 1 \<longleftrightarrow> c \<notin> set s"
  using find_from_bounds [of c s 0] find_from_absent [of c s 0]
  by (auto simp: find_str_def)

lemma find_nonneg: "c \<in> set s \<Longrightarrow> 0 \<le> find_str s c"
  using find_from_bounds [of c s 0] by (simp add: find_str_def)

lemma rfind_absent_iff: "rfind_str s c = - 1 \<longleftrightarrow> c \<notin> set s"
  using find_from_bounds [of c "rev s" 0] find_from_absent [of c "rev s" 0]
  by (auto simp: rfind_str_def Let_def)

lemma py_slice_to_zero: "0 \<le> a \<Longrightarrow> py_slice s a 0 = []"
  by (simp add: py_slice_def slice_index_def Let_def)

lemma json_loads_empty:
  "json_loads k [] = Inl (Exn ''JSONDecodeError'' ''Expecting value: line 1 column 1 (char 0)'')"
  by (simp add: json_loads_def skip_ws_def errmsg_def show_nat.simps digit_char_def)

text \<open>
  The three ways in which the text of the agent fails to yield a JSON object, for every
  text. Without an opening brace the fallback answer carries the message that no JSON
  structure was found. With an opening brace and no closing brace the end index
  \<open>rfind_str result_str (CHR ''}'') + 1\<close> is \<open>0\<close>, the test against \<open>- 1\<close> passes, the
  empty slice goes to the decoder, and the message is the one of a failed decoding. In
  general, whenever the decoder rejects the slice, the message is the decoder's, under
  the heading of a failed decoding for JSONDecodeError and of an unexpected error for
  RecursionError and ValueError.
\<close>

lemma no_opening_brace_fallback:
  assumes "CHR ''{'' \<notin> set result_str"
  shows "parse_agent_output k result_str has_history
           = fallback_answer result_str has_history no_json_found"
  using assms
  by (simp add: parse_agent_output_def parse_json_response_def Let_def find_absent_iff)

lemma no_closing_brace_fallback:
  assumes "CHR ''{'' \<in> set result_str" and "CHR ''}'' \<notin> set result_str"
  shows "parse_agent_output k result_str has_history
           = fallback_answer result_str has_history
               ''JSON-Parsing fehlgeschlagen: Expecting value: line 1 column 1 (char 0)''"
proof -
  from assms(1) have a: "find_str result_str (CHR ''{'') \<noteq> - 1" "0 \<le> find_str result_str (CHR ''{'')"
    by (simp_all add: find_absent_iff find_nonneg)
  from assms(2) have b: "rfind_str result_str (CHR ''}'') = - 1"
    by (simp add: rfind_absent_iff)
  from a b show ?thesis
    by (simp add: parse_agent_output_def parse_json_response_def Let_def py_slice_to_zero
          json_loads_empty)
qed

lemma undecodable_fallback:
  assumes "CHR ''{'' \<in> set result_str"
    and "json_loads k (py_slice result_str (find_str result_str (CHR ''{''))
                         (rfind_str result_str (CHR ''}'') + 1)) = Inl e"
  shows "parse_agent_output k result_str has_history
           = fallback_answer result_str has_history
               ((if exn_class e = ''JSONDecodeError'' then ''JSON-Parsing fehlgeschlagen: ''
                 else ''Unerwarteter Parsing-Fehler: '') @ exn_msg e)"
proof -
  from assms(1) have a: "find_str result_str (CHR ''{'') \<noteq> - 1"
    by (simp add: find_absent_iff)
  have b: "rfind_str result_str (CHR ''}'') + 1 \<noteq> - 1"
    using find_from_bounds [of "CHR ''}''" "rev result_str" 0]
          find_from_absent [of "CHR ''}''" "rev result_str" 0]
    by (cases "CHR ''}'' \<in> set result_str") (auto simp: rfind_str_def Let_def)
  from a b assms(2) show ?thesis
    by (simp add: parse_agent_output_def parse_json_response_def Let_def)
qed

end
